theory Spec2Isabelle
  imports Complex_Main "HOL-Library.Word"
begin

unbundle bit_operations_syntax

section \<open>Shared data of the gesture engines\<close>

text \<open>
  The calculators exchange protobuf messages. A message with string fields is a record
  of strings (an unset string field reads as the empty string); a \<open>float\<close> or \<open>double\<close>
  field or variable holds the real number that its value denotes.
  A frame is what one call of \<open>Process\<close> sees on its input streams: the label id of
  the last detection (\<open>input_detections.back().label_id().Get(0)\<close>), the landmarks, the
  angles, and the input timestamp, a count of microseconds. A stream that is empty at this
  timestamp is \<open>None\<close>.
\<close>

record Mqtt_Message =
  topic :: string
  payload :: string

record Angle =
  angle1 :: real
  angle2 :: real

record NormalizedLandmark =
  lm_x :: real
  lm_y :: real
  lm_z :: real

record frame =
  in_detections :: "int option"
  in_landmarks :: "NormalizedLandmark list option"
  in_angles :: "Angle list option"
  in_timestamp :: int

text \<open>
  Every way a call of \<open>Open\<close> or \<open>Process\<close> can fail. The first six are the
  \<open>RET_CHECK\<close>s of the source, which return a non-OK status. The last two stand for
  undefined behaviour of the C++ code: reading a vector or a repeated field outside its
  range, and converting a float that does not fit to \<open>int\<close>.
\<close>

datatype error =
  DetectionsEmpty
  | LandmarksEmpty
  | AnglesEmpty
  | AngleNumberMissing
  | WindowCountMismatch
  | NoActionMap
  | IndexOutOfRange
  | IntCastOutOfRange

text \<open>
  What one \<open>Process\<close> call of an engine puts on its output streams: at most one packet
  on \<open>MQTT_MESSAGE\<close> (a vector of messages) and at most one packet \<open>true\<close> on \<open>FLAG\<close>,
  both stamped \<open>InputTimestamp().NextAllowedInStream()\<close>.
\<close>

record engineOutput =
  out_messages :: "Mqtt_Message list option"
  out_flag :: bool

text \<open>\<open>getAngle\<close>, the same function in the fixed and in the moving calculator.\<close>

definition getAngle :: "int \<Rightarrow> int \<Rightarrow> Angle list \<Rightarrow> error + real" where
  "getAngle angleNumber lmId angles =
     (if 0 \<le> lmId \<and> nat lmId < length angles
      then Inr (if angleNumber = 1 then angle1 (angles ! nat lmId)
                else angle2 (angles ! nat lmId))
      else Inl IndexOutOfRange)"

section \<open>Floating-point arithmetic\<close>

text \<open>
  The calculators compute with C++ \<open>double\<close> and \<open>float\<close>: every operation gives the
  exact result rounded to the nearest value of the format, ties to the even significand
  (IEEE 754 binary64 and binary32, each operation rounded to its own format). A
  floating-point value is the real number it denotes. \<open>fp_round p emin\<close> rounds a real
  to \<open>p\<close> significant bits, with the spacing of the least normal exponent \<open>emin\<close> below
  it (the subnormal numbers). Overflow to infinity is not modelled: times and coordinates
  stay far below it, and a quotient that large is refused by the cast to \<open>int\<close> anyway.
\<close>

definition round_half_even :: "real \<Rightarrow> int" where
  "round_half_even x =
     (let n = \<lfloor>x\<rfloor>; d = x - of_int n
      in if d < 1 / 2 then n else if 1 / 2 < d then n + 1 else if even n then n else n + 1)"

text \<open>
  The exponent \<open>e\<close> with \<open>2 powi e \<le> x < 2 powi (e + 1)\<close> for a positive \<open>x\<close>, searched from
  a start exponent in a bounded number of steps.
\<close>

fun binade_from :: "nat \<Rightarrow> int \<Rightarrow> real \<Rightarrow> int" where
  "binade_from 0 e x = e"
| "binade_from (Suc n) e x =
     (if 2 powi (e + 1) \<le> x then binade_from n (e + 1) x
      else if x < 2 powi e then binade_from n (e - 1) x
      else e)"

definition fp_round :: "nat \<Rightarrow> int \<Rightarrow> real \<Rightarrow> real" where
  "fp_round p emin x =
     (if x = 0 then 0
      else let e = max (binade_from 2200 0 \<bar>x\<bar>) emin - (int p - 1)
           in of_int (round_half_even (x / 2 powi e)) * 2 powi e)"

definition double_round :: "real \<Rightarrow> real" where
  "double_round = fp_round 53 (- 1022)"

definition float_round :: "real \<Rightarrow> real" where
  "float_round = fp_round 24 (- 126)"

text \<open>Subtraction of two doubles; subtraction and division of two floats.\<close>

definition double_sub :: "real \<Rightarrow> real \<Rightarrow> real" where
  "double_sub a b = double_round (a - b)"

definition float_sub :: "real \<Rightarrow> real \<Rightarrow> real" where
  "float_sub a b = float_round (a - b)"

definition float_div :: "real \<Rightarrow> real \<Rightarrow> real" where
  "float_div a b = float_round (a / b)"

text \<open>
  \<open>Timestamp::Seconds()\<close> of the framework: the timestamp, a 64-bit count of
  microseconds, converted to \<open>double\<close> and divided by \<open>1000000.0\<close>.
\<close>

definition Seconds :: "int \<Rightarrow> real" where
  "Seconds ts = double_round (double_round (of_int ts) / 1000000)"

text \<open>\<open>cc->InputTimestamp().Seconds()\<close>\<close>

definition in_seconds :: "frame \<Rightarrow> real" where
  "in_seconds f = Seconds (in_timestamp f)"

section \<open>The fixed engine\<close>

text \<open>
  \<open>fixedActionMap\<close> and the calculator options are protobuf messages whose declaration is
  not among the sources; the fields are the ones the calculator reads. A field the code
  asks for with \<open>has_...()\<close> is optional. \<open>currentAction\<close> is a message that is either a
  copy of an entry of the configuration or cleared, and \<open>IsInitialized()\<close> tells the two
  apart: it is an option here.
\<close>

record angle_limit =
  angle_limit_pos :: real
  angle_limit_neg :: real

record fixedActionMap =
  fx_start_action :: int
  fx_landmark_id :: "int option"
  fx_angle_number :: "int option"
  fx_angle_limits :: "angle_limit list"
  fx_time_between_actions :: real
  fx_auto_repeat :: bool
  fx_mqtt_message :: "Mqtt_Message list"

record fixedOptions =
  fixed_time_out_s :: real
  fixed_actions_map :: "fixedActionMap list"

record LastGesture =
  lg_start_action :: int
  lg_time :: real
  lg_notEmpty :: bool

record fixedState =
  fx_currentAction :: "fixedActionMap option"
  lastGesture :: LastGesture

text \<open>\<open>(struct LastGesture){0}\<close>\<close>

definition LastGesture_zero :: LastGesture where
  "LastGesture_zero = \<lparr>lg_start_action = 0, lg_time = 0, lg_notEmpty = False\<rparr>"

text \<open>\<open>clear(currentAction, lastGesture)\<close> of the fixed calculator.\<close>

definition fx_clear :: fixedState where
  "fx_clear = \<lparr>fx_currentAction = None, lastGesture = LastGesture_zero\<rparr>"

definition setLastGesture :: "fixedActionMap \<Rightarrow> real \<Rightarrow> LastGesture" where
  "setLastGesture currentAction lastGestureTime =
     \<lparr>lg_start_action = fx_start_action currentAction,
      lg_time = lastGestureTime,
      lg_notEmpty = True\<rparr>"

text \<open>\<open>Open\<close> checks only that the number of configured actions is at least 0.\<close>

definition fixed_Open :: "fixedOptions \<Rightarrow> error + fixedState" where
  "fixed_Open opts =
     (if int (length (fixed_actions_map opts)) \<ge> 0 then Inr fx_clear
      else Inl NoActionMap)"

text \<open>The window test of \<open>executeAction\<close>: both bounds are inclusive.\<close>

definition in_window :: "real \<Rightarrow> angle_limit \<Rightarrow> bool" where
  "in_window currAngle w \<longleftrightarrow>
     currAngle \<le> angle_limit_pos w \<and> currAngle \<ge> angle_limit_neg w"

text \<open>
  The loop of \<open>executeAction\<close> over \<open>angle_limits\<close>, from index \<open>i\<close> on, with the windows
  still to visit and the candidate command so far. Every window that holds the angle
  overwrites the candidate with message \<open>i\<close>.
\<close>

fun window_loop ::
  "real \<Rightarrow> Mqtt_Message list \<Rightarrow> nat \<Rightarrow> angle_limit list \<Rightarrow> Mqtt_Message \<Rightarrow> error + Mqtt_Message"
where
  "window_loop currAngle msgs i [] currCommand = Inr currCommand"
| "window_loop currAngle msgs i (w # ws) currCommand =
     (if in_window currAngle w
      then (if i < length msgs
            then window_loop currAngle msgs (Suc i) ws
                   \<lparr>topic = topic (msgs ! i), payload = payload (msgs ! i)\<rparr>
            else Inl IndexOutOfRange)
      else window_loop currAngle msgs (Suc i) ws currCommand)"

text \<open>
  The command \<open>executeAction\<close> selects: topic \<open>empty\<close> is the sentinel for none.
  \<open>landmark_id()\<close> and \<open>angle_number()\<close> of an unset field read 0.
\<close>

definition select_command :: "fixedActionMap \<Rightarrow> Angle list \<Rightarrow> error + Mqtt_Message" where
  "select_command currentAction angles =
     (case fx_landmark_id currentAction of
        Some lm \<Rightarrow>
          (case getAngle (case fx_angle_number currentAction of None \<Rightarrow> 0 | Some n \<Rightarrow> n)
                  lm angles of
             Inl e \<Rightarrow> Inl e
           | Inr currAngle \<Rightarrow>
               window_loop currAngle (fx_mqtt_message currentAction) 0
                 (fx_angle_limits currentAction) \<lparr>topic = ''empty'', payload = ''''\<rparr>)
      | None \<Rightarrow>
          (case fx_mqtt_message currentAction of
             [] \<Rightarrow> Inl IndexOutOfRange
           | m # _ \<Rightarrow> Inr \<lparr>topic = topic m, payload = payload m\<rparr>))"

text \<open>
  \<open>executeAction\<close>: the state it leaves and the packet it sends. The stored action is
  cleared on every path (\<open>currentAction.Clear()\<close> at the end), and \<open>mqttMessages\<close> is
  empty again when it returns, so that member is not part of the state.
\<close>

definition executeAction ::
  "fixedActionMap \<Rightarrow> LastGesture \<Rightarrow> real \<Rightarrow> Angle list
     \<Rightarrow> error + (fixedState \<times> Mqtt_Message list option)"
where
  "executeAction currentAction lg GestureTime angles =
     (case select_command currentAction angles of
        Inl e \<Rightarrow> Inl e
      | Inr currCommand \<Rightarrow>
          (if topic currCommand \<noteq> ''empty''
           then Inr (\<lparr>fx_currentAction = None,
                      lastGesture = setLastGesture currentAction GestureTime\<rparr>,
                     Some [currCommand])
           else Inr (\<lparr>fx_currentAction = None, lastGesture = lg\<rparr>, None)))"

text \<open>
  The scan of \<open>Process\<close> over the configured actions, with the action stored so far.
  There is no \<open>break\<close>: every entry whose start id is the label is stored and checked
  in turn.
\<close>

fun fixed_scan ::
  "int \<Rightarrow> fixedActionMap list \<Rightarrow> fixedActionMap option \<Rightarrow> error + fixedActionMap option"
where
  "fixed_scan label_id [] cur = Inr cur"
| "fixed_scan label_id (act # acts) cur =
     (if fx_start_action act = label_id
      then (if fx_landmark_id act \<noteq> None
            then (if fx_angle_number act = None then Inl AngleNumberMissing
                  else if length (fx_angle_limits act) \<noteq> length (fx_mqtt_message act)
                  then Inl WindowCountMismatch
                  else fixed_scan label_id acts (Some act))
            else fixed_scan label_id acts (Some act))
      else fixed_scan label_id acts cur)"

text \<open>
  The first half of \<open>Process\<close>: the abort on a changed label, then, when no action is
  stored, the scan; a scan that finds nothing clears the state.
\<close>

definition fixed_abort :: "fixedState \<Rightarrow> int \<Rightarrow> fixedState" where
  "fixed_abort s label_id =
     (if lg_notEmpty (lastGesture s) \<and> lg_start_action (lastGesture s) \<noteq> label_id
      then fx_clear else s)"

definition fixed_arm :: "fixedOptions \<Rightarrow> fixedState \<Rightarrow> int \<Rightarrow> error + fixedState" where
  "fixed_arm opts s label_id =
     (let s0 = fixed_abort s label_id in
      case fx_currentAction s0 of
        Some a \<Rightarrow> Inr s0
      | None \<Rightarrow>
          (case fixed_scan label_id (fixed_actions_map opts) None of
             Inl e \<Rightarrow> Inl e
           | Inr None \<Rightarrow> Inr fx_clear
           | Inr (Some a) \<Rightarrow> Inr (s0\<lparr>fx_currentAction := Some a\<rparr>)))"

text \<open>
  The second half: the first execution, the repeat, and the time-out, which reads the
  last-gesture time that \<open>executeAction\<close> may just have set.
\<close>

definition fires :: "fixedActionMap \<Rightarrow> LastGesture \<Rightarrow> real \<Rightarrow> bool" where
  "fires a lg t \<longleftrightarrow>
     \<not> lg_notEmpty lg
     \<or> (fx_auto_repeat a \<and> double_sub t (lg_time lg) \<ge> fx_time_between_actions a)"

definition fixed_timeout :: "fixedOptions \<Rightarrow> real \<Rightarrow> fixedState \<Rightarrow> fixedState" where
  "fixed_timeout opts t s =
     (if double_sub t (lg_time (lastGesture s)) \<ge> fixed_time_out_s opts then fx_clear
      else s)"

definition fixed_fire ::
  "fixedOptions \<Rightarrow> fixedState \<Rightarrow> real \<Rightarrow> Angle list
     \<Rightarrow> error + (fixedState \<times> Mqtt_Message list option)"
where
  "fixed_fire opts s t angles =
     (case fx_currentAction s of
        None \<Rightarrow> Inr (s, None)
      | Some a \<Rightarrow>
          (if fires a (lastGesture s) t
           then (case executeAction a (lastGesture s) t angles of
                   Inl e \<Rightarrow> Inl e
                 | Inr (s', pkt) \<Rightarrow> Inr (fixed_timeout opts t s', pkt))
           else Inr (fixed_timeout opts t s, None)))"

definition fixed_Process ::
  "fixedOptions \<Rightarrow> fixedState \<Rightarrow> frame \<Rightarrow> error + (fixedState \<times> engineOutput)"
where
  "fixed_Process opts s f =
     (case in_detections f of
        None \<Rightarrow> Inl DetectionsEmpty
      | Some label_id \<Rightarrow>
     (case in_landmarks f of
        None \<Rightarrow> Inl LandmarksEmpty
      | Some landmarks \<Rightarrow>
     (case in_angles f of
        None \<Rightarrow> Inl AnglesEmpty
      | Some angles \<Rightarrow>
     (case fixed_arm opts s label_id of
        Inl e \<Rightarrow> Inl e
      | Inr s1 \<Rightarrow>
     (case fixed_fire opts s1 (in_seconds f) angles of
        Inl e \<Rightarrow> Inl e
      | Inr (s2, pkt) \<Rightarrow>
          Inr (s2, \<lparr>out_messages = pkt, out_flag = (fx_currentAction s2 = None)\<rparr>))))))"

section \<open>The moving engine\<close>

datatype ActionType = TRASLATION | ROTATION

record movingActionMap =
  mv_start_action :: int
  action_type :: ActionType
  mv_landmark_id :: int
  mv_angle_number :: int
  action_threshold :: real
  mv_time_between_actions :: real
  mv_auto_repeat :: bool
  max_repeat :: "int option"
  mv_topic :: string
  positive_payload :: string
  negative_payload :: string

record movingOptions =
  moving_time_out_s :: real
  moving_actions_map :: "movingActionMap list"

record StartingGesture =
  sg_start_action :: int
  sg_time :: real
  sg_angle :: real
  lmInfo :: NormalizedLandmark

record movingState =
  mv_currentAction :: "movingActionMap option"
  startingGesture :: StartingGesture

text \<open>\<open>(struct StartingGesture){0}\<close>\<close>

definition StartingGesture_zero :: StartingGesture where
  "StartingGesture_zero =
     \<lparr>sg_start_action = 0, sg_time = 0, sg_angle = 0,
      lmInfo = \<lparr>lm_x = 0, lm_y = 0, lm_z = 0\<rparr>\<rparr>"

text \<open>\<open>clear(currentAction, startingGesture)\<close> of the moving calculator.\<close>

definition mv_clear :: movingState where
  "mv_clear = \<lparr>mv_currentAction = None, startingGesture = StartingGesture_zero\<rparr>"

definition moving_Open :: "movingOptions \<Rightarrow> error + movingState" where
  "moving_Open opts =
     (if int (length (moving_actions_map opts)) \<ge> 0 then Inr mv_clear
      else Inl NoActionMap)"

definition landmark_at :: "NormalizedLandmark list \<Rightarrow> int \<Rightarrow> error + NormalizedLandmark" where
  "landmark_at landmarks lmId =
     (if 0 \<le> lmId \<and> nat lmId < length landmarks then Inr (landmarks ! nat lmId)
      else Inl IndexOutOfRange)"

definition setStartingGesture ::
  "movingActionMap \<Rightarrow> real \<Rightarrow> NormalizedLandmark list \<Rightarrow> Angle list \<Rightarrow> error + StartingGesture"
where
  "setStartingGesture currentAction startingGestureTime landmarks angles =
     (case getAngle (mv_angle_number currentAction) (mv_landmark_id currentAction) angles of
        Inl e \<Rightarrow> Inl e
      | Inr ang \<Rightarrow>
          (case landmark_at landmarks (mv_landmark_id currentAction) of
             Inl e \<Rightarrow> Inl e
           | Inr lm \<Rightarrow>
               Inr \<lparr>sg_start_action = mv_start_action currentAction,
                    sg_time = startingGestureTime,
                    sg_angle = ang,
                    lmInfo = lm\<rparr>))"

text \<open>
  The scan of the moving \<open>Process\<close>: every entry whose start id is the label is stored
  and its baseline taken, in turn, with no \<open>break\<close>.
\<close>

fun moving_scan ::
  "int \<Rightarrow> real \<Rightarrow> NormalizedLandmark list \<Rightarrow> Angle list \<Rightarrow> movingActionMap list
     \<Rightarrow> movingState \<Rightarrow> error + movingState"
where
  "moving_scan label_id t landmarks angles [] s = Inr s"
| "moving_scan label_id t landmarks angles (act # acts) s =
     (if mv_start_action act = label_id
      then (case setStartingGesture act t landmarks angles of
              Inl e \<Rightarrow> Inl e
            | Inr sg \<Rightarrow>
                moving_scan label_id t landmarks angles acts
                  \<lparr>mv_currentAction = Some act, startingGesture = sg\<rparr>)
      else moving_scan label_id t landmarks angles acts s)"

text \<open>
  The cast \<open>(int)\<close> of a float truncates toward zero and is undefined when the result
  does not fit. The value \<open>- 2 ^ 31\<close> is refused as well: every path of \<open>Process\<close> then
  calls \<open>abs\<close> on it, which is undefined. A division by a zero threshold, whose float
  result is infinite or not a number, is refused too.
\<close>

definition float_to_int :: "real \<Rightarrow> error + int" where
  "float_to_int r =
     (let n = (if 0 \<le> r then \<lfloor>r\<rfloor> else \<lceil>r\<rceil>)
      in if \<bar>n\<bar> < 2 ^ 31 then Inr n else Inl IntCastOutOfRange)"

text \<open>
  The baseline minus the current value, stored in the variable \<open>float movementDiff\<close>.
  The landmark coordinate, the angle and the threshold are \<open>float\<close> fields: the
  subtraction, and the division by the threshold in \<open>numActions_of\<close>, are operations
  of single precision, each rounded to a float.
\<close>

definition movementDiff ::
  "movingActionMap \<Rightarrow> StartingGesture \<Rightarrow> NormalizedLandmark list \<Rightarrow> Angle list \<Rightarrow> error + real"
where
  "movementDiff currentAction sg landmarks angles =
     (case action_type currentAction of
        TRASLATION \<Rightarrow>
          (case landmark_at landmarks (mv_landmark_id currentAction) of
             Inl e \<Rightarrow> Inl e
           | Inr lm \<Rightarrow> Inr (float_sub (lm_x (lmInfo sg)) (lm_x lm)))
      | ROTATION \<Rightarrow>
          (case getAngle (mv_angle_number currentAction) (mv_landmark_id currentAction) angles of
             Inl e \<Rightarrow> Inl e
           | Inr ang \<Rightarrow> Inr (float_sub (sg_angle sg) ang)))"

text \<open>The integer division of C, which truncates toward zero.\<close>

definition c_div :: "int \<Rightarrow> int \<Rightarrow> int" where
  "c_div a b = sgn a * sgn b * (\<bar>a\<bar> div \<bar>b\<bar>)"

text \<open>The two clamps of \<open>numActions\<close>, in the order of the source.\<close>

definition clamp_numActions :: "movingActionMap \<Rightarrow> int \<Rightarrow> int" where
  "clamp_numActions currentAction n0 =
     (let n1 = (if \<not> mv_auto_repeat currentAction \<and> n0 \<noteq> 0 then c_div n0 \<bar>n0\<bar> else n0)
      in case max_repeat currentAction of
           Some m \<Rightarrow>
             (if n1 \<noteq> 0 \<and> \<bar>n1\<bar> > m then (if n1 > 0 then m else m * (- 1)) else n1)
         | None \<Rightarrow> n1)"

definition numActions_of ::
  "movingActionMap \<Rightarrow> StartingGesture \<Rightarrow> NormalizedLandmark list \<Rightarrow> Angle list \<Rightarrow> error + int"
where
  "numActions_of currentAction sg landmarks angles =
     (case movementDiff currentAction sg landmarks angles of
        Inl e \<Rightarrow> Inl e
      | Inr d \<Rightarrow>
          (if action_threshold currentAction = 0 then Inl IntCastOutOfRange
           else (case float_to_int (float_div d (action_threshold currentAction)) of
                   Inl e \<Rightarrow> Inl e
                 | Inr n0 \<Rightarrow> Inr (clamp_numActions currentAction n0))))"

text \<open>The messages the loop \<open>for (i = 1; i <= abs(numActions); i++)\<close> collects.\<close>

definition moving_messages :: "movingActionMap \<Rightarrow> int \<Rightarrow> Mqtt_Message list" where
  "moving_messages currentAction numActions =
     replicate (nat \<bar>numActions\<bar>)
       \<lparr>topic = mv_topic currentAction,
        payload = (if numActions > 0 then positive_payload currentAction
                   else negative_payload currentAction)\<rparr>"

text \<open>The block under \<open>execute action\<close>, entered with the stored action.\<close>

definition moving_execute ::
  "movingActionMap \<Rightarrow> movingState \<Rightarrow> real \<Rightarrow> NormalizedLandmark list \<Rightarrow> Angle list
     \<Rightarrow> error + (movingState \<times> Mqtt_Message list option)"
where
  "moving_execute currentAction s t landmarks angles =
     (let sg = (startingGesture s)\<lparr>sg_time := t\<rparr> in
      case numActions_of currentAction sg landmarks angles of
        Inl e \<Rightarrow> Inl e
      | Inr numActions \<Rightarrow>
          (if \<bar>numActions\<bar> \<noteq> 0
           then Inr (mv_clear, Some (moving_messages currentAction numActions))
           else Inr (s\<lparr>startingGesture := sg\<rparr>, None)))"

text \<open>
  The check at the top of \<open>Process\<close> compares the start id of the baseline with the
  start id of the stored action (0 when the message is cleared), not with the label.
\<close>

definition moving_abort :: "movingState \<Rightarrow> movingState" where
  "moving_abort s =
     (if sg_start_action (startingGesture s) \<noteq>
         (case mv_currentAction s of None \<Rightarrow> 0 | Some a \<Rightarrow> mv_start_action a)
      then mv_clear else s)"

definition moving_timeout :: "movingOptions \<Rightarrow> real \<Rightarrow> movingState \<Rightarrow> movingState" where
  "moving_timeout opts t s =
     (if double_sub t (sg_time (startingGesture s)) \<ge> moving_time_out_s opts then mv_clear
      else s)"

text \<open>The two branches of \<open>Process\<close> after the check at the top.\<close>

definition moving_step ::
  "movingOptions \<Rightarrow> movingState \<Rightarrow> int \<Rightarrow> real \<Rightarrow> NormalizedLandmark list \<Rightarrow> Angle list
     \<Rightarrow> error + (movingState \<times> Mqtt_Message list option)"
where
  "moving_step opts s0 label_id t landmarks angles =
     (case mv_currentAction s0 of
        None \<Rightarrow>
          (case moving_scan label_id t landmarks angles (moving_actions_map opts) s0 of
             Inl e \<Rightarrow> Inl e
           | Inr s1 \<Rightarrow> Inr (if mv_currentAction s1 = None then mv_clear else s1, None))
      | Some a0 \<Rightarrow>
          (let s1 = moving_timeout opts t s0
           in case mv_currentAction s1 of
                None \<Rightarrow> Inr (s1, None)
              | Some a \<Rightarrow>
                  (if double_sub t (sg_time (startingGesture s1)) \<ge> mv_time_between_actions a
                   then moving_execute a s1 t landmarks angles
                   else Inr (s1, None))))"

definition moving_Process ::
  "movingOptions \<Rightarrow> movingState \<Rightarrow> frame \<Rightarrow> error + (movingState \<times> engineOutput)"
where
  "moving_Process opts s f =
     (case in_detections f of
        None \<Rightarrow> Inl DetectionsEmpty
      | Some label_id \<Rightarrow>
     (case in_landmarks f of
        None \<Rightarrow> Inl LandmarksEmpty
      | Some landmarks \<Rightarrow>
     (case in_angles f of
        None \<Rightarrow> Inl AnglesEmpty
      | Some angles \<Rightarrow>
     (case moving_step opts (moving_abort s) label_id (in_seconds f) landmarks angles of
        Inl e \<Rightarrow> Inl e
      | Inr (s2, pkt) \<Rightarrow>
          Inr (s2, \<lparr>out_messages = pkt, out_flag = (mv_currentAction s2 = None)\<rparr>)))))"

section \<open>The transition engine\<close>

record Mqtt =
  mq_topic :: string
  mq_payload :: string

record actions =
  startAction :: int
  endAction :: int
  mqtt :: Mqtt
  notEmpty :: bool

record transitionActionMap =
  tr_start_action :: int
  tr_end_action :: int
  tr_mqtt_message :: Mqtt_Message

record transitionOptions =
  time_out_s :: real
  actions_map :: "transitionActionMap list"

record transitionState =
  tr_currentAction :: actions
  startingGestureTime :: real
  actionsMap :: "actions list"

text \<open>\<open>(struct _actions){0}\<close>\<close>

definition actions_zero :: actions where
  "actions_zero =
     \<lparr>startAction = 0, endAction = 0, mqtt = \<lparr>mq_topic = '''', mq_payload = ''''\<rparr>,
      notEmpty = False\<rparr>"

text \<open>\<open>clear(currentAction, startingGestureTime)\<close> of the transition calculator.\<close>

definition tr_clear :: "transitionState \<Rightarrow> transitionState" where
  "tr_clear s = s\<lparr>tr_currentAction := actions_zero, startingGestureTime := 0\<rparr>"

definition loadAct :: "transitionActionMap \<Rightarrow> actions" where
  "loadAct m =
     \<lparr>startAction = tr_start_action m,
      endAction = tr_end_action m,
      mqtt = \<lparr>mq_topic = topic (tr_mqtt_message m), mq_payload = payload (tr_mqtt_message m)\<rparr>,
      notEmpty = True\<rparr>"

text \<open>
  \<open>Open\<close> copies the configured pairs into \<open>actionsMap\<close>; the other members are zero
  when the calculator is constructed.
\<close>

definition transition_Open :: "transitionOptions \<Rightarrow> error + transitionState" where
  "transition_Open opts =
     (if int (length (actions_map opts)) \<ge> 0
      then Inr \<lparr>tr_currentAction = actions_zero, startingGestureTime = 0,
                actionsMap = map loadAct (actions_map opts)\<rparr>
      else Inl NoActionMap)"

text \<open>The scan of the transition \<open>Process\<close>, again with no \<open>break\<close>.\<close>

fun transition_scan :: "int \<Rightarrow> real \<Rightarrow> actions list \<Rightarrow> transitionState \<Rightarrow> transitionState" where
  "transition_scan label_id t [] s = s"
| "transition_scan label_id t (act # acts) s =
     (if startAction act = label_id
      then transition_scan label_id t acts
             (s\<lparr>tr_currentAction := act, startingGestureTime := t\<rparr>)
      else transition_scan label_id t acts s)"

definition transition_timeout ::
  "transitionOptions \<Rightarrow> real \<Rightarrow> transitionState \<Rightarrow> transitionState"
where
  "transition_timeout opts t s =
     (if double_sub t (startingGestureTime s) \<ge> time_out_s opts then tr_clear s else s)"

text \<open>The two branches of \<open>Process\<close> on \<open>currentAction.notEmpty\<close>.\<close>

definition transition_step ::
  "transitionOptions \<Rightarrow> transitionState \<Rightarrow> int \<Rightarrow> real
     \<Rightarrow> transitionState \<times> Mqtt_Message list option"
where
  "transition_step opts s label_id t =
     (if \<not> notEmpty (tr_currentAction s)
      then (let s1 = transition_scan label_id t (actionsMap s) s
            in (if \<not> notEmpty (tr_currentAction s1) then tr_clear s1 else s1, None))
      else (let s1 = transition_timeout opts t s
            in if notEmpty (tr_currentAction s1) \<and> label_id = endAction (tr_currentAction s1)
               then (tr_clear s1,
                     Some [\<lparr>topic = mq_topic (mqtt (tr_currentAction s1)),
                            payload = mq_payload (mqtt (tr_currentAction s1))\<rparr>])
               else (s1, None)))"

text \<open>An empty detection stream is tolerated: nothing happens.\<close>

definition transition_Process ::
  "transitionOptions \<Rightarrow> transitionState \<Rightarrow> frame \<Rightarrow> transitionState \<times> engineOutput"
where
  "transition_Process opts s f =
     (case in_detections f of
        None \<Rightarrow> (s, \<lparr>out_messages = None, out_flag = False\<rparr>)
      | Some label_id \<Rightarrow>
          (case transition_step opts s label_id (in_seconds f) of
             (s2, pkt) \<Rightarrow>
               (s2, \<lparr>out_messages = pkt, out_flag = (\<not> notEmpty (tr_currentAction s2))\<rparr>)))"

section \<open>The classifier\<close>

datatype tag = LATCH_TRANSITION | LATCH_MOVING | LATCH_WRITING | LATCH_FIXED | TBD

text \<open>
  Where a packet is stamped: at the input timestamp, or at
  \<open>InputTimestamp().NextAllowedInStream()\<close>.
\<close>

datatype stamp = AtInputTimestamp | AtNextAllowedInStream

record packet =
  pk_tag :: tag
  pk_value :: bool
  pk_at :: stamp

definition transitionTag :: string where
  "transitionTag = ''transition''"

definition movingTag :: string where
  "movingTag = ''moving''"

definition writingTag :: string where
  "writingTag = ''writing''"

definition fixedTag :: string where
  "fixedTag = ''fixed''"

text \<open>
  A \<open>char\<close> as the operand of \<open>^\<close> with an \<open>unsigned int\<close>: promoted to \<open>int\<close> and then
  converted, so a byte from 128 on is sign-extended where \<open>char\<close> is signed.
\<close>

definition char_to_unsigned :: "char \<Rightarrow> 32 word" where
  "char_to_unsigned c =
     (if (of_char c :: nat) < 128 then word_of_nat (of_char c)
      else word_of_int (int (of_char c) - 256))"

text \<open>
  \<open>str2int\<close> reads a C string, which ends at the first NUL, from its end to its start
  in 32-bit unsigned arithmetic.
\<close>

fun str2int :: "string \<Rightarrow> 32 word" where
  "str2int [] = 5381"
| "str2int (c # cs) =
     (if c = CHR 0x00 then 5381 else (str2int cs * 33) XOR char_to_unsigned c)"

definition setLatches :: "bool \<Rightarrow> bool \<Rightarrow> bool \<Rightarrow> bool \<Rightarrow> packet list" where
  "setLatches transition moving writing fixed =
     [\<lparr>pk_tag = LATCH_TRANSITION, pk_value = transition, pk_at = AtInputTimestamp\<rparr>,
      \<lparr>pk_tag = LATCH_MOVING, pk_value = moving, pk_at = AtInputTimestamp\<rparr>,
      \<lparr>pk_tag = LATCH_WRITING, pk_value = writing, pk_at = AtInputTimestamp\<rparr>,
      \<lparr>pk_tag = LATCH_FIXED, pk_value = fixed, pk_at = AtInputTimestamp\<rparr>]"

text \<open>
  The loop of \<open>Open\<close> with \<open>std::getline\<close>: the lines of the file, a last line without a
  newline included when it is not empty.
\<close>

fun getlines :: "string \<Rightarrow> string \<Rightarrow> string list" where
  "getlines line [] = (if line = [] then [] else [line])"
| "getlines line (c # cs) =
     (if c = CHR 0x0A then line # getlines [] cs else getlines (line @ [c]) cs)"

text \<open>
  \<open>Open\<close> fails when the file cannot be read (\<open>None\<close>); otherwise line \<open>i\<close> is stored
  under key \<open>i\<close> of \<open>gesture_map_\<close>.
\<close>

datatype classifier_error = ResourceNotFound

definition classifier_Open :: "string option \<Rightarrow> classifier_error + (int \<rightharpoonup> string)" where
  "classifier_Open file =
     (case file of
        None \<Rightarrow> Inl ResourceNotFound
      | Some gesture_map_string \<Rightarrow>
          (let ls = getlines [] gesture_map_string
           in Inr (map_of (zip (map int [0..<length ls]) ls))))"

text \<open>
  \<open>Process\<close>: the text of the label (empty when the id is not a key), and the
  \<open>switch\<close> over its hash.
\<close>

definition classifier_Process :: "(int \<rightharpoonup> string) \<Rightarrow> frame \<Rightarrow> packet list" where
  "classifier_Process gesture_map f =
     (case in_detections f of
        None \<Rightarrow> []
      | Some label_id \<Rightarrow>
          (let outLabel = (case gesture_map label_id of None \<Rightarrow> '''' | Some l \<Rightarrow> l);
               h = str2int outLabel
           in if h = str2int transitionTag then setLatches True False False False
              else if h = str2int movingTag then setLatches False True False False
              else if h = str2int writingTag then setLatches False False True False
              else if h = str2int fixedTag then setLatches False False False True
              else setLatches False False False False
                   @ [\<lparr>pk_tag = TBD, pk_value = True, pk_at = AtNextAllowedInStream\<rparr>]))"

section \<open>Frame sequences and example configurations\<close>

text \<open>
  The host calls \<open>Process\<close> once per frame, in order, and stops at the first failure.
  \<open>fixed_run\<close> collects the outputs of the fixed engine over a list of frames.
\<close>

fun fixed_run ::
  "fixedOptions \<Rightarrow> fixedState \<Rightarrow> frame list \<Rightarrow> error + (fixedState \<times> engineOutput list)"
where
  "fixed_run opts s [] = Inr (s, [])"
| "fixed_run opts s (f # fs) =
     (case fixed_Process opts s f of
        Inl e \<Rightarrow> Inl e
      | Inr (s', out) \<Rightarrow>
          (case fixed_run opts s' fs of
             Inl e \<Rightarrow> Inl e
           | Inr (s'', outs) \<Rightarrow> Inr (s'', out # outs)))"

text \<open>A frame with one landmark and one angle pair, at a timestamp in microseconds.\<close>

definition ex_frame :: "int \<Rightarrow> int \<Rightarrow> real \<Rightarrow> frame" where
  "ex_frame label_id ts ang =
     \<lparr>in_detections = Some label_id,
      in_landmarks = Some [\<lparr>lm_x = 1 / 2, lm_y = 1 / 2, lm_z = 0\<rparr>],
      in_angles = Some [\<lparr>angle1 = ang, angle2 = 0\<rparr>],
      in_timestamp = ts\<rparr>"

text \<open>
  Fixed actions after the example of the calculator's header: a mute key without angle
  precondition, repeated every second, and a key chosen by two angle windows, whose limits
  are the floats nearest to -1.4, -0.8, 0.35 and 0.85.
\<close>

definition ex_mute :: fixedActionMap where
  "ex_mute =
     \<lparr>fx_start_action = 1, fx_landmark_id = None, fx_angle_number = None,
      fx_angle_limits = [], fx_time_between_actions = 1, fx_auto_repeat = True,
      fx_mqtt_message = [\<lparr>topic = ''handCommander/tv/ir_command'', payload = ''KEY_MUTE''\<rparr>]\<rparr>"

definition ex_windows :: fixedActionMap where
  "ex_windows =
     \<lparr>fx_start_action = 3, fx_landmark_id = Some 0, fx_angle_number = Some 1,
      fx_angle_limits =
        [\<lparr>angle_limit_pos = float_round (- 8 / 10), angle_limit_neg = float_round (- 14 / 10)\<rparr>,
         \<lparr>angle_limit_pos = float_round (85 / 100), angle_limit_neg = float_round (35 / 100)\<rparr>],
      fx_time_between_actions = 1, fx_auto_repeat = True,
      fx_mqtt_message =
        [\<lparr>topic = ''handCommander/tv/ir_command'', payload = ''DOWN''\<rparr>,
         \<lparr>topic = ''handCommander/tv/ir_command'', payload = ''UP''\<rparr>]\<rparr>"

definition ex_fixed_options :: fixedOptions where
  "ex_fixed_options = \<lparr>fixed_time_out_s = 3 / 2, fixed_actions_map = [ex_mute, ex_windows]\<rparr>"

text \<open>An action with two angle windows and one payload, and a configuration holding it.\<close>

definition ex_bad :: fixedActionMap where
  "ex_bad =
     \<lparr>fx_start_action = 3, fx_landmark_id = Some 0, fx_angle_number = Some 1,
      fx_angle_limits =
        [\<lparr>angle_limit_pos = float_round (- 8 / 10), angle_limit_neg = float_round (- 14 / 10)\<rparr>,
         \<lparr>angle_limit_pos = float_round (85 / 100), angle_limit_neg = float_round (35 / 100)\<rparr>],
      fx_time_between_actions = 1, fx_auto_repeat = True,
      fx_mqtt_message = [\<lparr>topic = ''handCommander/tv/ir_command'', payload = ''DOWN''\<rparr>]\<rparr>"

definition ex_bad_options :: fixedOptions where
  "ex_bad_options = \<lparr>fixed_time_out_s = 3 / 2, fixed_actions_map = [ex_mute, ex_bad]\<rparr>"

text \<open>
  Moving actions after the example of the calculator's header: a rotation with
  auto-repeat and at most two repeats, and a translation without auto-repeat. The
  threshold is the \<open>float\<close> nearest to 0.1.
\<close>

definition ex_rotation :: movingActionMap where
  "ex_rotation =
     \<lparr>mv_start_action = 6, action_type = ROTATION, mv_landmark_id = 0, mv_angle_number = 1,
      action_threshold = 13421773 / 134217728, mv_time_between_actions = 1 / 2,
      mv_auto_repeat = True,
      max_repeat = Some 2, mv_topic = ''handCommander/tv/ir_command'',
      positive_payload = ''KEY_VOLUMEUP'', negative_payload = ''KEY_VOLUMEDOWN''\<rparr>"

definition ex_translation :: movingActionMap where
  "ex_translation =
     \<lparr>mv_start_action = 4, action_type = TRASLATION, mv_landmark_id = 0, mv_angle_number = 0,
      action_threshold = 13421773 / 134217728, mv_time_between_actions = 1 / 2,
      mv_auto_repeat = False,
      max_repeat = None, mv_topic = ''handCommander/tv/ir_command'',
      positive_payload = ''KEY_CHANNELUP'', negative_payload = ''KEY_CHANNELDOWN''\<rparr>"

definition ex_moving_options :: movingOptions where
  "ex_moving_options =
     \<lparr>moving_time_out_s = 3 / 2, moving_actions_map = [ex_rotation, ex_translation]\<rparr>"

text \<open>The state of the moving engine armed on an action at time 0, with a baseline.\<close>

definition ex_moving_armed :: "movingActionMap \<Rightarrow> real \<Rightarrow> real \<Rightarrow> movingState" where
  "ex_moving_armed a ang x0 =
     \<lparr>mv_currentAction = Some a,
      startingGesture =
        \<lparr>sg_start_action = mv_start_action a, sg_time = 0, sg_angle = ang,
         lmInfo = \<lparr>lm_x = x0, lm_y = 1 / 2, lm_z = 0\<rparr>\<rparr>\<rparr>"

text \<open>
  Transition pairs after the example of the calculator's header, the state \<open>Open\<close>
  leaves for them, and that state armed on the first pair at time 0.
\<close>

definition ex_power_on :: transitionActionMap where
  "ex_power_on =
     \<lparr>tr_start_action = 0, tr_end_action = 2,
      tr_mqtt_message = \<lparr>topic = ''handCommander/tv/ir_command'', payload = ''KEY_POWER''\<rparr>\<rparr>"

definition ex_power_off :: transitionActionMap where
  "ex_power_off =
     \<lparr>tr_start_action = 2, tr_end_action = 0,
      tr_mqtt_message = \<lparr>topic = ''handCommander/tv/ir_command'', payload = ''KEY_POWER''\<rparr>\<rparr>"

definition ex_transition_options :: transitionOptions where
  "ex_transition_options = \<lparr>time_out_s = 3 / 2, actions_map = [ex_power_on, ex_power_off]\<rparr>"

definition ex_transition_open :: transitionState where
  "ex_transition_open =
     \<lparr>tr_currentAction = actions_zero, startingGestureTime = 0,
      actionsMap = [loadAct ex_power_on, loadAct ex_power_off]\<rparr>"

definition ex_transition_armed :: transitionState where
  "ex_transition_armed =
     \<lparr>tr_currentAction = loadAct ex_power_on, startingGestureTime = 0,
      actionsMap = [loadAct ex_power_on, loadAct ex_power_off]\<rparr>"

text \<open>Configurations in which two entries share a start id.\<close>

definition ex_mute_home :: transitionActionMap where
  "ex_mute_home =
     \<lparr>tr_start_action = 0, tr_end_action = 1,
      tr_mqtt_message = \<lparr>topic = ''handCommander/tv/ir_command'', payload = ''KEY_MUTE''\<rparr>\<rparr>"

definition ex_transition_twice :: transitionState where
  "ex_transition_twice =
     \<lparr>tr_currentAction = actions_zero, startingGestureTime = 0,
      actionsMap = [loadAct ex_power_on, loadAct ex_mute_home]\<rparr>"

definition ex_rotation_twice :: movingActionMap where
  "ex_rotation_twice = ex_rotation\<lparr>positive_payload := ''KEY_UP'', negative_payload := ''KEY_DOWN''\<rparr>"

definition ex_moving_twice :: movingOptions where
  "ex_moving_twice =
     \<lparr>moving_time_out_s = 3 / 2, moving_actions_map = [ex_rotation, ex_rotation_twice]\<rparr>"

definition ex_pause :: fixedActionMap where
  "ex_pause =
     ex_mute\<lparr>fx_mqtt_message :=
               [\<lparr>topic = ''handCommander/tv/ir_command'', payload = ''KEY_PAUSE''\<rparr>]\<rparr>"

definition ex_fixed_twice :: fixedOptions where
  "ex_fixed_twice = \<lparr>fixed_time_out_s = 3 / 2, fixed_actions_map = [ex_mute, ex_pause]\<rparr>"

text \<open>The table of the classifier with the four names on lines 0 to 3.\<close>

definition ex_gesture_map :: "int \<rightharpoonup> string" where
  "ex_gesture_map =
     [0 \<mapsto> ''transition'', 1 \<mapsto> ''moving'', 2 \<mapsto> ''writing'', 3 \<mapsto> ''fixed'']"

text \<open>The rotation without a maximum, and the transition engine armed at a given time.\<close>

definition ex_dial :: movingActionMap where
  "ex_dial = ex_rotation\<lparr>max_repeat := None\<rparr>"

definition ex_dial_options :: movingOptions where
  "ex_dial_options = \<lparr>moving_time_out_s = 3 / 2, moving_actions_map = [ex_dial]\<rparr>"

definition ex_transition_armed_at :: "real \<Rightarrow> transitionState" where
  "ex_transition_armed_at t0 =
     \<lparr>tr_currentAction = loadAct ex_power_on, startingGestureTime = t0,
      actionsMap = [loadAct ex_power_on, loadAct ex_power_off]\<rparr>"

section \<open>An invariant of the fixed engine\<close>

text \<open>
  Between frames a stored action is one that the scan of the configuration yields for its
  own start id, and the last-gesture record is set and carries that start id.
\<close>

definition fixed_consistent :: "fixedOptions \<Rightarrow> fixedState \<Rightarrow> bool" where
  "fixed_consistent opts s \<longleftrightarrow>
     (case fx_currentAction s of
        None \<Rightarrow> True
      | Some a \<Rightarrow>
          lg_notEmpty (lastGesture s)
          \<and> lg_start_action (lastGesture s) = fx_start_action a
          \<and> fixed_scan (fx_start_action a) (fixed_actions_map opts) None = Inr (Some a))"

section \<open>An invariant of the moving engine\<close>

text \<open>
  The baseline carries the start id of the stored action, or 0 when nothing is stored.
\<close>

definition moving_consistent :: "movingState \<Rightarrow> bool" where
  "moving_consistent s \<longleftrightarrow>
     sg_start_action (startingGesture s) =
       (case mv_currentAction s of None \<Rightarrow> 0 | Some a \<Rightarrow> mv_start_action a)"

section \<open>The count of the moving engine in the words of the specification\<close>



text \<open>Evaluation rules for the floating-point operations on the values of the examples.\<close>

named_theorems fp_eval

section \<open>Evaluating the floating-point operations\<close>

lemma two_powi_less_D: "(2::real) powi a < 2 powi b \<Longrightarrow> a < b"
proof (rule ccontr)
  assume less: "(2::real) powi a < 2 powi b" and "\<not> a < b"
  then have "b \<le> a" by simp
  then have "(2::real) powi b \<le> 2 powi a" by (intro power_int_increasing) auto
  with less show False by simp
qed

lemma binade_from_eq:
  "2 powi k \<le> x \<Longrightarrow> x < 2 powi (k + 1) \<Longrightarrow> \<bar>k - e\<bar> \<le> int n \<Longrightarrow> binade_from n e x = k"
proof (induction n arbitrary: e)
  case 0
  then show ?case by simp
next
  case (Suc n)
  show ?case
  proof (cases "2 powi (e + 1) \<le> x")
    case True
    with Suc.prems(2) have "(2::real) powi (e + 1) < 2 powi (k + 1)" by simp
    then have "e + 1 < k + 1" by (rule two_powi_less_D)
    with Suc.prems have "\<bar>k - (e + 1)\<bar> \<le> int n" by simp
    from Suc.IH [OF Suc.prems(1,2) this] True show ?thesis by simp
  next
    case False
    show ?thesis
    proof (cases "x < 2 powi e")
      case True
      with Suc.prems(1) have "(2::real) powi k < 2 powi e" by simp
      then have "k < e" by (rule two_powi_less_D)
      with Suc.prems have "\<bar>k - (e - 1)\<bar> \<le> int n" by simp
      from Suc.IH [OF Suc.prems(1,2) this] True False show ?thesis by simp
    next
      case above: False
      from False Suc.prems(1) have "(2::real) powi k < 2 powi (e + 1)" by simp
      then have "k < e + 1" by (rule two_powi_less_D)
      moreover from above Suc.prems(2) have "(2::real) powi e < 2 powi (k + 1)" by simp
      then have "e < k + 1" by (rule two_powi_less_D)
      ultimately have "e = k" by simp
      with False above show ?thesis by simp
    qed
  qed
qed

text \<open>
  Rounding a value whose binade \<open>k\<close> is known: the quotient by the spacing is rounded to
  an integer.
\<close>

lemma fp_round_eval:
  assumes "2 powi k \<le> \<bar>x\<bar>" and "\<bar>x\<bar> < 2 powi (k + 1)" and "\<bar>k\<bar> \<le> 2200"
  shows "fp_round p emin x =
           of_int (round_half_even (x / 2 powi (max k emin - (int p - 1))))
             * 2 powi (max k emin - (int p - 1))"
proof -
  have "binade_from 2200 0 \<bar>x\<bar> = k"
    using assms by (intro binade_from_eq) auto
  moreover have "x \<noteq> 0"
  proof
    assume "x = 0"
    with assms(1) have "(2::real) powi k \<le> 0" by simp
    moreover have "(0::real) < 2 powi k" by simp
    ultimately show False by linarith
  qed
  ultimately show ?thesis by (simp add: fp_round_def Let_def)
qed

lemma double_round_0 [fp_eval]: "double_round 0 = 0"
  by (simp add: double_round_def fp_round_def)

lemma float_round_0 [fp_eval]: "float_round 0 = 0"
  by (simp add: float_round_def fp_round_def)

lemma Seconds_0 [fp_eval]: "Seconds 0 = 0"
  by (simp add: Seconds_def double_round_0)

lemma double_sub_self [fp_eval]: "double_sub a a = 0"
  by (simp add: double_sub_def double_round_0)

text \<open>The doubles of the timestamps, their differences and the float quotients that the
  examples use.\<close>

lemma double_round_int_1 [fp_eval]: "double_round (1) = 1"
  unfolding double_round_def
  by (subst fp_round_eval [where k = 0]) (simp_all add: round_half_even_def)

lemma double_round_s_1 [fp_eval]: "double_round (1 / 1000000) = 4722366482869645 / 4722366482869645213696"
  unfolding double_round_def
  by (subst fp_round_eval [where k = "- 20"]) (simp_all add: round_half_even_def)

lemma Seconds_1 [fp_eval]: "Seconds 1 = 4722366482869645 / 4722366482869645213696"
  by (simp add: Seconds_def fp_eval)

lemma double_round_v_1 [fp_eval]: "double_round (4722366482869645 / 4722366482869645213696) = 4722366482869645 / 4722366482869645213696"
  unfolding double_round_def
  by (subst fp_round_eval [where k = "- 20"]) (simp_all add: round_half_even_def)

lemma double_round_int_3000000 [fp_eval]: "double_round (3000000) = 3000000"
  unfolding double_round_def
  by (subst fp_round_eval [where k = 21]) (simp_all add: round_half_even_def)

lemma double_round_s_3000000 [fp_eval]: "double_round (3) = 3"
  unfolding double_round_def
  by (subst fp_round_eval [where k = 1]) (simp_all add: round_half_even_def)

lemma Seconds_3000000 [fp_eval]: "Seconds 3000000 = 3"
  by (simp add: Seconds_def fp_eval)

lemma double_round_int_100000 [fp_eval]: "double_round (100000) = 100000"
  unfolding double_round_def
  by (subst fp_round_eval [where k = 16]) (simp_all add: round_half_even_def)

lemma double_round_s_100000 [fp_eval]: "double_round (1 / 10) = 3602879701896397 / 36028797018963968"
  unfolding double_round_def
  by (subst fp_round_eval [where k = "- 4"]) (simp_all add: round_half_even_def)

lemma Seconds_100000 [fp_eval]: "Seconds 100000 = 3602879701896397 / 36028797018963968"
  by (simp add: Seconds_def fp_eval)

lemma double_round_v_100000 [fp_eval]: "double_round (3602879701896397 / 36028797018963968) = 3602879701896397 / 36028797018963968"
  unfolding double_round_def
  by (subst fp_round_eval [where k = "- 4"]) (simp_all add: round_half_even_def)

lemma double_round_int_150000 [fp_eval]: "double_round (150000) = 150000"
  unfolding double_round_def
  by (subst fp_round_eval [where k = 17]) (simp_all add: round_half_even_def)

lemma double_round_s_150000 [fp_eval]: "double_round (3 / 20) = 5404319552844595 / 36028797018963968"
  unfolding double_round_def
  by (subst fp_round_eval [where k = "- 3"]) (simp_all add: round_half_even_def)

lemma Seconds_150000 [fp_eval]: "Seconds 150000 = 5404319552844595 / 36028797018963968"
  by (simp add: Seconds_def fp_eval)

lemma double_round_v_150000 [fp_eval]: "double_round (5404319552844595 / 36028797018963968) = 5404319552844595 / 36028797018963968"
  unfolding double_round_def
  by (subst fp_round_eval [where k = "- 3"]) (simp_all add: round_half_even_def)

lemma double_round_int_500000 [fp_eval]: "double_round (500000) = 500000"
  unfolding double_round_def
  by (subst fp_round_eval [where k = 18]) (simp_all add: round_half_even_def)

lemma double_round_s_500000 [fp_eval]: "double_round (1 / 2) = 1 / 2"
  unfolding double_round_def
  by (subst fp_round_eval [where k = "- 1"]) (simp_all add: round_half_even_def)

lemma Seconds_500000 [fp_eval]: "Seconds 500000 = 1 / 2"
  by (simp add: Seconds_def fp_eval)

lemma double_round_int_550000 [fp_eval]: "double_round (550000) = 550000"
  unfolding double_round_def
  by (subst fp_round_eval [where k = 19]) (simp_all add: round_half_even_def)

lemma double_round_s_550000 [fp_eval]: "double_round (11 / 20) = 2476979795053773 / 4503599627370496"
  unfolding double_round_def
  by (subst fp_round_eval [where k = "- 1"]) (simp_all add: round_half_even_def)

lemma Seconds_550000 [fp_eval]: "Seconds 550000 = 2476979795053773 / 4503599627370496"
  by (simp add: Seconds_def fp_eval)

lemma double_round_v_550000 [fp_eval]: "double_round (2476979795053773 / 4503599627370496) = 2476979795053773 / 4503599627370496"
  unfolding double_round_def
  by (subst fp_round_eval [where k = "- 1"]) (simp_all add: round_half_even_def)

lemma double_round_int_1000000 [fp_eval]: "double_round (1000000) = 1000000"
  unfolding double_round_def
  by (subst fp_round_eval [where k = 19]) (simp_all add: round_half_even_def)

lemma Seconds_1000000 [fp_eval]: "Seconds 1000000 = 1"
  by (simp add: Seconds_def fp_eval)

lemma double_round_int_1150000 [fp_eval]: "double_round (1150000) = 1150000"
  unfolding double_round_def
  by (subst fp_round_eval [where k = 20]) (simp_all add: round_half_even_def)

lemma double_round_s_1150000 [fp_eval]: "double_round (23 / 20) = 2589569785738035 / 2251799813685248"
  unfolding double_round_def
  by (subst fp_round_eval [where k = 0]) (simp_all add: round_half_even_def)

lemma Seconds_1150000 [fp_eval]: "Seconds 1150000 = 2589569785738035 / 2251799813685248"
  by (simp add: Seconds_def fp_eval)

lemma double_round_v_1150000 [fp_eval]: "double_round (2589569785738035 / 2251799813685248) = 2589569785738035 / 2251799813685248"
  unfolding double_round_def
  by (subst fp_round_eval [where k = 0]) (simp_all add: round_half_even_def)

lemma double_round_int_1250000 [fp_eval]: "double_round (1250000) = 1250000"
  unfolding double_round_def
  by (subst fp_round_eval [where k = 20]) (simp_all add: round_half_even_def)

lemma double_round_s_1250000 [fp_eval]: "double_round (5 / 4) = 5 / 4"
  unfolding double_round_def
  by (subst fp_round_eval [where k = 0]) (simp_all add: round_half_even_def)

lemma Seconds_1250000 [fp_eval]: "Seconds 1250000 = 5 / 4"
  by (simp add: Seconds_def fp_eval)

lemma double_round_int_1400000 [fp_eval]: "double_round (1400000) = 1400000"
  unfolding double_round_def
  by (subst fp_round_eval [where k = 20]) (simp_all add: round_half_even_def)

lemma double_round_s_1400000 [fp_eval]: "double_round (7 / 5) = 3152519739159347 / 2251799813685248"
  unfolding double_round_def
  by (subst fp_round_eval [where k = 0]) (simp_all add: round_half_even_def)

lemma Seconds_1400000 [fp_eval]: "Seconds 1400000 = 3152519739159347 / 2251799813685248"
  by (simp add: Seconds_def fp_eval)

lemma double_round_v_1400000 [fp_eval]: "double_round (3152519739159347 / 2251799813685248) = 3152519739159347 / 2251799813685248"
  unfolding double_round_def
  by (subst fp_round_eval [where k = 0]) (simp_all add: round_half_even_def)

lemma double_round_int_1500000 [fp_eval]: "double_round (1500000) = 1500000"
  unfolding double_round_def
  by (subst fp_round_eval [where k = 20]) (simp_all add: round_half_even_def)

lemma double_round_s_1500000 [fp_eval]: "double_round (3 / 2) = 3 / 2"
  unfolding double_round_def
  by (subst fp_round_eval [where k = 0]) (simp_all add: round_half_even_def)

lemma Seconds_1500000 [fp_eval]: "Seconds 1500000 = 3 / 2"
  by (simp add: Seconds_def fp_eval)

lemma double_round_int_1500001 [fp_eval]: "double_round (1500001) = 1500001"
  unfolding double_round_def
  by (subst fp_round_eval [where k = 20]) (simp_all add: round_half_even_def)

lemma double_round_s_1500001 [fp_eval]: "double_round (1500001 / 1000000) = 6755403944655371 / 4503599627370496"
  unfolding double_round_def
  by (subst fp_round_eval [where k = 0]) (simp_all add: round_half_even_def)

lemma Seconds_1500001 [fp_eval]: "Seconds 1500001 = 6755403944655371 / 4503599627370496"
  by (simp add: Seconds_def fp_eval)

lemma double_round_v_1500001 [fp_eval]: "double_round (6755403944655371 / 4503599627370496) = 6755403944655371 / 4503599627370496"
  unfolding double_round_def
  by (subst fp_round_eval [where k = 0]) (simp_all add: round_half_even_def)

lemma double_round_int_1600000 [fp_eval]: "double_round (1600000) = 1600000"
  unfolding double_round_def
  by (subst fp_round_eval [where k = 20]) (simp_all add: round_half_even_def)

lemma double_round_s_1600000 [fp_eval]: "double_round (8 / 5) = 3602879701896397 / 2251799813685248"
  unfolding double_round_def
  by (subst fp_round_eval [where k = 0]) (simp_all add: round_half_even_def)

lemma Seconds_1600000 [fp_eval]: "Seconds 1600000 = 3602879701896397 / 2251799813685248"
  by (simp add: Seconds_def fp_eval)

lemma double_round_v_1600000 [fp_eval]: "double_round (3602879701896397 / 2251799813685248) = 3602879701896397 / 2251799813685248"
  unfolding double_round_def
  by (subst fp_round_eval [where k = 0]) (simp_all add: round_half_even_def)

lemma double_round_int_2000000 [fp_eval]: "double_round (2000000) = 2000000"
  unfolding double_round_def
  by (subst fp_round_eval [where k = 20]) (simp_all add: round_half_even_def)

lemma double_round_s_2000000 [fp_eval]: "double_round (2) = 2"
  unfolding double_round_def
  by (subst fp_round_eval [where k = 1]) (simp_all add: round_half_even_def)

lemma Seconds_2000000 [fp_eval]: "Seconds 2000000 = 2"
  by (simp add: Seconds_def fp_eval)

lemma double_round_int_2050000 [fp_eval]: "double_round (2050000) = 2050000"
  unfolding double_round_def
  by (subst fp_round_eval [where k = 20]) (simp_all add: round_half_even_def)

lemma double_round_s_2050000 [fp_eval]: "double_round (41 / 20) = 2308094809027379 / 1125899906842624"
  unfolding double_round_def
  by (subst fp_round_eval [where k = 1]) (simp_all add: round_half_even_def)

lemma Seconds_2050000 [fp_eval]: "Seconds 2050000 = 2308094809027379 / 1125899906842624"
  by (simp add: Seconds_def fp_eval)

lemma double_round_v_2050000 [fp_eval]: "double_round (2308094809027379 / 1125899906842624) = 2308094809027379 / 1125899906842624"
  unfolding double_round_def
  by (subst fp_round_eval [where k = 1]) (simp_all add: round_half_even_def)

lemma double_round_int_2500000 [fp_eval]: "double_round (2500000) = 2500000"
  unfolding double_round_def
  by (subst fp_round_eval [where k = 21]) (simp_all add: round_half_even_def)

lemma double_round_s_2500000 [fp_eval]: "double_round (5 / 2) = 5 / 2"
  unfolding double_round_def
  by (subst fp_round_eval [where k = 1]) (simp_all add: round_half_even_def)

lemma Seconds_2500000 [fp_eval]: "Seconds 2500000 = 5 / 2"
  by (simp add: Seconds_def fp_eval)

lemma double_round_d_2050000_550000 [fp_eval]: "double_round (6755399441055743 / 4503599627370496) = 6755399441055743 / 4503599627370496"
  unfolding double_round_def
  by (subst fp_round_eval [where k = 0]) (simp_all add: round_half_even_def)

lemma double_round_d_1150000_150000 [fp_eval]: "double_round (36028797018963965 / 36028797018963968) = 9007199254740991 / 9007199254740992"
  unfolding double_round_def
  by (subst fp_round_eval [where k = "- 1"]) (simp_all add: round_half_even_def)

lemma double_round_d_1500001_1 [fp_eval]: "double_round (7083549724304467432051 / 4722366482869645213696) = 3 / 2"
  unfolding double_round_def
  by (subst fp_round_eval [where k = 0]) (simp_all add: round_half_even_def)

lemma float_round_tenth [fp_eval]: "float_round (1 / 10) = 13421773 / 134217728"
  unfolding float_round_def
  by (subst fp_round_eval [where k = "- 4"]) (simp_all add: round_half_even_def)

lemma float_round_half [fp_eval]: "float_round (1 / 2) = 1 / 2"
  unfolding float_round_def
  by (subst fp_round_eval [where k = "- 1"]) (simp_all add: round_half_even_def)

lemma float_round_q_half [fp_eval]: "float_round (67108864 / 13421773) = 5"
  unfolding float_round_def
  by (subst fp_round_eval [where k = 2]) (simp_all add: round_half_even_def)

lemma float_round_neg_3_8 [fp_eval]: "float_round (- (3 / 8)) = - (3 / 8)"
  unfolding float_round_def
  by (subst fp_round_eval [where k = "- 2"]) (simp_all add: round_half_even_def)

lemma float_round_q_neg_3_8 [fp_eval]: "float_round (- (50331648 / 13421773)) = - (15 / 4)"
  unfolding float_round_def
  by (subst fp_round_eval [where k = 1]) (simp_all add: round_half_even_def)

lemma float_round_35_100 [fp_eval]: "float_round (7 / 20) = 11744051 / 33554432"
  unfolding float_round_def
  by (subst fp_round_eval [where k = "- 2"]) (simp_all add: round_half_even_def)

lemma float_round_q_35_100 [fp_eval]: "float_round (46976204 / 13421773) = 7 / 2"
  unfolding float_round_def
  by (subst fp_round_eval [where k = 1]) (simp_all add: round_half_even_def)

lemma float_round_neg_8_10 [fp_eval]: "float_round (- (4 / 5)) = - (13421773 / 16777216)"
  unfolding float_round_def
  by (subst fp_round_eval [where k = "- 1"]) (simp_all add: round_half_even_def)

lemma float_round_neg_14_10 [fp_eval]: "float_round (- (7 / 5)) = - (11744051 / 8388608)"
  unfolding float_round_def
  by (subst fp_round_eval [where k = 0]) (simp_all add: round_half_even_def)

lemma float_round_85_100 [fp_eval]: "float_round (17 / 20) = 7130317 / 8388608"
  unfolding float_round_def
  by (subst fp_round_eval [where k = "- 1"]) (simp_all add: round_half_even_def)

section \<open>The scans take the last matching entry\<close>

lemma find_snoc:
  "find P (xs @ [x]) = (case find P xs of None \<Rightarrow> (if P x then Some x else None) | Some y \<Rightarrow> Some y)"
  by (induction xs) auto

lemma find_Some_mem: "find P xs = Some a \<Longrightarrow> a \<in> set xs"
  by (induction xs) (auto split: if_splits)

lemma find_Some_holds: "find P xs = Some a \<Longrightarrow> P a"
  by (induction xs) (auto split: if_splits)

lemma transition_scan_last:
  "transition_scan l t acts s =
     (case find (\<lambda>a. startAction a = l) (rev acts) of
        None \<Rightarrow> s
      | Some a \<Rightarrow> s\<lparr>tr_currentAction := a, startingGestureTime := t\<rparr>)"
  by (induction acts arbitrary: s) (auto simp: find_snoc split: option.splits)

lemma fixed_scan_last:
  "fixed_scan l acts cur = Inr r \<Longrightarrow>
   r = (case find (\<lambda>a. fx_start_action a = l) (rev acts) of None \<Rightarrow> cur | Some a \<Rightarrow> Some a)"
  by (induction acts arbitrary: cur) (auto simp: find_snoc split: option.splits if_splits)

lemma fixed_scan_find:
  "fixed_scan l acts None = Inr (Some a) \<Longrightarrow>
   find (\<lambda>a. fx_start_action a = l) (rev acts) = Some a"
  by (drule fixed_scan_last) (simp split: option.splits)

lemma fixed_scan_start: "fixed_scan l acts None = Inr (Some a) \<Longrightarrow> fx_start_action a = l"
  by (drule fixed_scan_find) (drule find_Some_holds, simp)

lemma moving_scan_last:
  "moving_scan l t lms angs acts s = Inr s' \<Longrightarrow>
   (case find (\<lambda>a. mv_start_action a = l) (rev acts) of
      None \<Rightarrow> s' = s
    | Some a \<Rightarrow> mv_currentAction s' = Some a
               \<and> setStartingGesture a t lms angs = Inr (startingGesture s'))"
proof (induction acts arbitrary: s)
  case Nil
  then show ?case by simp
next
  case (Cons act acts)
  show ?case
  proof (cases "mv_start_action act = l")
    case False
    with Cons.prems have "moving_scan l t lms angs acts s = Inr s'" by simp
    from Cons.IH [OF this] False show ?thesis
      by (simp add: find_snoc split: option.splits)
  next
    case True
    with Cons.prems obtain sg where
      sg: "setStartingGesture act t lms angs = Inr sg"
      and rest: "moving_scan l t lms angs acts
                   \<lparr>mv_currentAction = Some act, startingGesture = sg\<rparr> = Inr s'"
      by (auto split: sum.splits)
    from Cons.IH [OF rest] True sg show ?thesis
      by (auto simp: find_snoc split: option.splits)
  qed
qed

section \<open>The firing routine of the fixed engine\<close>

lemmas fixed_defs =
  fixed_Process_def fixed_arm_def fixed_abort_def fixed_fire_def fires_def fixed_timeout_def
  executeAction_def select_command_def fx_clear_def LastGesture_zero_def setLastGesture_def
  getAngle_def in_window_def in_seconds_def

lemmas ex_defs =
  ex_fixed_options_def ex_frame_def ex_mute_def ex_windows_def ex_bad_def ex_bad_options_def

lemma window_loop_no_match:
  "\<forall>w \<in> set ws. \<not> in_window ang w \<Longrightarrow> window_loop ang msgs k ws cur = Inr cur"
  by (induction ws arbitrary: k cur) auto


lemma executeAction_clears:
  "executeAction a lg t angles = Inr (s', pkt) \<Longrightarrow> fx_currentAction s' = None"
  by (auto simp: executeAction_def split: sum.splits if_splits)

lemma fixed_timeout_keeps_None:
  "fx_currentAction s = None \<Longrightarrow> fx_currentAction (fixed_timeout opts t s) = None"
  by (simp add: fixed_timeout_def fx_clear_def)

lemma fixed_fire_packet_clears:
  "fixed_fire opts s t angles = Inr (s', Some msgs) \<Longrightarrow> fx_currentAction s' = None"
  by (auto simp: fixed_fire_def fixed_timeout_keeps_None split: option.splits if_splits sum.splits
      dest: executeAction_clears)

lemma fixed_arm_rescans:
  "fx_currentAction s = None \<Longrightarrow>
   fixed_arm opts s l =
     (case fixed_scan l (fixed_actions_map opts) None of
        Inl e \<Rightarrow> Inl e
      | Inr None \<Rightarrow> Inr fx_clear
      | Inr (Some a) \<Rightarrow> Inr ((fixed_abort s l)\<lparr>fx_currentAction := Some a\<rparr>))"
  by (auto simp: fixed_arm_def fixed_abort_def fx_clear_def split: sum.splits option.splits)



text \<open>
  The invariant holds when nothing is stored, so in the state \<open>Open\<close> leaves, and every
  frame keeps it.
\<close>

lemma fixed_consistent_clear: "fixed_consistent opts fx_clear"
  by (simp add: fixed_consistent_def fx_clear_def)

lemma fixed_consistent_None: "fx_currentAction s = None \<Longrightarrow> fixed_consistent opts s"
  by (simp add: fixed_consistent_def)

lemma fixed_arm_armed:
  assumes "fixed_consistent opts s" and "fixed_arm opts s l = Inr s1"
    and "fx_currentAction s1 = Some a"
  shows "fx_start_action a = l"
    and "fixed_scan l (fixed_actions_map opts) None = Inr (Some a)"
    and "lg_notEmpty (lastGesture s1) \<Longrightarrow> lg_start_action (lastGesture s1) = l"
proof -
  let ?s0 = "fixed_abort s l"
  have scan: "fixed_scan l (fixed_actions_map opts) None = Inr (Some a)
              \<and> (lg_notEmpty (lastGesture s1) \<longrightarrow> lg_start_action (lastGesture s1) = l)"
  proof (cases "fx_currentAction ?s0")
    case None
    with assms(2,3) have "fixed_scan l (fixed_actions_map opts) None = Inr (Some a)"
      and "lastGesture s1 = lastGesture ?s0"
      by (auto simp: fixed_arm_def fx_clear_def split: sum.splits option.splits)
    then show ?thesis
      by (auto simp: fixed_abort_def fx_clear_def LastGesture_zero_def split: if_splits)
  next
    case (Some a')
    with assms(2,3) have s1: "s1 = ?s0" and a': "a' = a"
      by (auto simp: fixed_arm_def)
    from Some have same: "?s0 = s"
      and keep: "\<not> (lg_notEmpty (lastGesture s) \<and> lg_start_action (lastGesture s) \<noteq> l)"
      by (auto simp: fixed_abort_def fx_clear_def split: if_splits)
    from assms(1) Some same a'
    have inv: "lg_notEmpty (lastGesture s)" "lg_start_action (lastGesture s) = fx_start_action a"
      "fixed_scan (fx_start_action a) (fixed_actions_map opts) None = Inr (Some a)"
      by (auto simp: fixed_consistent_def)
    with keep have "fx_start_action a = l" by simp
    with inv s1 same show ?thesis by simp
  qed
  then show "fixed_scan l (fixed_actions_map opts) None = Inr (Some a)"
    and "lg_notEmpty (lastGesture s1) \<Longrightarrow> lg_start_action (lastGesture s1) = l"
    by simp_all
  from scan show "fx_start_action a = l" by (auto dest: fixed_scan_start)
qed

lemma fixed_fire_unfired:
  assumes "fixed_fire opts s1 t angles = Inr (s', pkt)" and "fx_currentAction s' = Some a"
  shows "fx_currentAction s1 = Some a" and "lastGesture s' = lastGesture s1"
    and "lg_notEmpty (lastGesture s1)"
  using assms
  by (auto simp: fixed_fire_def fires_def fixed_timeout_def fx_clear_def
      split: option.splits if_splits sum.splits dest: executeAction_clears)

lemma fixed_Process_consistent:
  assumes "fixed_consistent opts s" and "fixed_Process opts s f = Inr (s', out)"
  shows "fixed_consistent opts s'"
proof (cases "fx_currentAction s'")
  case None
  then show ?thesis by (rule fixed_consistent_None)
next
  case (Some a)
  from assms(2) obtain l angles s1 pkt where
    arm: "fixed_arm opts s l = Inr s1"
    and fire: "fixed_fire opts s1 (in_seconds f) angles = Inr (s', pkt)"
    by (auto simp: fixed_Process_def split: option.splits sum.splits)
  note unfired = fixed_fire_unfired [OF fire Some]
  note armed = fixed_arm_armed [OF assms(1) arm unfired(1)]
  from armed(3) [OF unfired(3)] armed(1,2) unfired(2,3) Some show ?thesis
    by (simp add: fixed_consistent_def)
qed

lemma executeAction_packet:
  "executeAction a lg t angles = Inr (s', Some msgs) \<Longrightarrow>
   \<exists>c. select_command a angles = Inr c \<and> msgs = [c]
       \<and> s' = \<lparr>fx_currentAction = None, lastGesture = setLastGesture a t\<rparr>"
  by (auto simp: executeAction_def split: sum.splits if_splits)

text \<open>
  C10. On every frame in which the fixed engine sends a command, the stored action is
  cleared when the frame ends and the unarmed flag goes out on that same frame, although
  the gesture persists. The engine keeps tracking only through the scan: on the next frame
  with the same label nothing is stored, the configuration is scanned again, and the
  engine is armed again on the entry that has just fired, the last entry with that start
  id. The frame after a firing scans the configuration whatever its label.
\<close>

theorem fixed_fire_clears_and_flags:
  assumes "fixed_consistent opts s" and "in_detections f = Some l"
    and "fixed_Process opts s f = Inr (s', out)"
    and "out_messages out \<noteq> None"
  shows "fx_currentAction s' = None \<and> out_flag out
         \<and> (\<exists>a. find (\<lambda>a. fx_start_action a = l) (rev (fixed_actions_map opts)) = Some a
                \<and> fx_start_action a = l
                \<and> (\<exists>angles c. in_angles f = Some angles \<and> select_command a angles = Inr c
                       \<and> out_messages out = Some [c])
                \<and> fixed_arm opts s' l = Inr (s'\<lparr>fx_currentAction := Some a\<rparr>))
         \<and> (\<forall>l'. fixed_arm opts s' l' =
              (case fixed_scan l' (fixed_actions_map opts) None of
                 Inl e \<Rightarrow> Inl e
               | Inr None \<Rightarrow> Inr fx_clear
               | Inr (Some a) \<Rightarrow> Inr ((fixed_abort s' l')\<lparr>fx_currentAction := Some a\<rparr>)))"
proof -
  from assms(2-4) obtain s1 msgs angles where
    angles: "in_angles f = Some angles"
    and arm: "fixed_arm opts s l = Inr s1"
    and fire: "fixed_fire opts s1 (in_seconds f) angles = Inr (s', Some msgs)"
    and out: "out = \<lparr>out_messages = Some msgs, out_flag = (fx_currentAction s' = None)\<rparr>"
    by (auto simp: fixed_Process_def split: option.splits sum.splits prod.splits)
  from fire have none: "fx_currentAction s' = None" by (rule fixed_fire_packet_clears)
  with out have flag: "out_flag out" by simp
  from fire obtain a sx where
    a: "fx_currentAction s1 = Some a"
    and exec: "executeAction a (lastGesture s1) (in_seconds f) angles = Inr (sx, Some msgs)"
    and s': "s' = fixed_timeout opts (in_seconds f) sx"
    by (auto simp: fixed_fire_def split: option.splits if_splits sum.splits)
  from executeAction_packet [OF exec] obtain c where
    c: "select_command a angles = Inr c" "msgs = [c]"
    and sx: "sx = \<lparr>fx_currentAction = None, lastGesture = setLastGesture a (in_seconds f)\<rparr>"
    by blast
  note armed = fixed_arm_armed [OF assms(1) arm a]
  have keep: "fixed_abort s' l = s'"
    using s' sx armed(1)
    by (auto simp: fixed_abort_def fixed_timeout_def fx_clear_def LastGesture_zero_def
        setLastGesture_def)
  have rearm: "fixed_arm opts s' l = Inr (s'\<lparr>fx_currentAction := Some a\<rparr>)"
    using none armed(2) keep by (simp add: fixed_arm_rescans)
  have "find (\<lambda>a. fx_start_action a = l) (rev (fixed_actions_map opts)) = Some a"
    using armed(2) by (rule fixed_scan_find)
  with armed(1) angles c out rearm
  have "\<exists>a. find (\<lambda>a. fx_start_action a = l) (rev (fixed_actions_map opts)) = Some a
                \<and> fx_start_action a = l
                \<and> (\<exists>angles c. in_angles f = Some angles \<and> select_command a angles = Inr c
                       \<and> out_messages out = Some [c])
                \<and> fixed_arm opts s' l = Inr (s'\<lparr>fx_currentAction := Some a\<rparr>)"
    by auto
  with none flag show ?thesis by (simp add: fixed_arm_rescans)
qed

theorem fixed_fire_clears_and_flags_witness:
  "fixed_Process ex_fixed_options fx_clear (ex_frame 1 0 0) =
     Inr (\<lparr>fx_currentAction = None, lastGesture = setLastGesture ex_mute 0\<rparr>,
          \<lparr>out_messages = Some [\<lparr>topic = ''handCommander/tv/ir_command'', payload = ''KEY_MUTE''\<rparr>],
           out_flag = True\<rparr>)
   \<and> fixed_arm ex_fixed_options \<lparr>fx_currentAction = None, lastGesture = setLastGesture ex_mute 0\<rparr> 1 =
     Inr \<lparr>fx_currentAction = Some ex_mute, lastGesture = setLastGesture ex_mute 0\<rparr>"
proof -
  have run: "fixed_Process ex_fixed_options fx_clear (ex_frame 1 0 0) =
     Inr (\<lparr>fx_currentAction = None, lastGesture = setLastGesture ex_mute 0\<rparr>,
          \<lparr>out_messages = Some [\<lparr>topic = ''handCommander/tv/ir_command'', payload = ''KEY_MUTE''\<rparr>],
           out_flag = True\<rparr>)"
    by (simp add: fixed_defs ex_defs fp_eval)
  have label: "in_detections (ex_frame 1 0 0) = Some 1"
    by (simp add: ex_frame_def)
  have last: "find (\<lambda>a. fx_start_action a = 1) (rev (fixed_actions_map ex_fixed_options)) =
      Some ex_mute"
    by (simp add: ex_fixed_options_def ex_mute_def ex_windows_def fp_eval)
  from fixed_fire_clears_and_flags [OF fixed_consistent_clear label run] last
  have "fixed_arm ex_fixed_options \<lparr>fx_currentAction = None, lastGesture = setLastGesture ex_mute 0\<rparr> 1 =
     Inr \<lparr>fx_currentAction = Some ex_mute, lastGesture = setLastGesture ex_mute 0\<rparr>"
    by auto
  with run show ?thesis by simp
qed

section \<open>Frames of the fixed engine\<close>

lemma mute_first:
  "fixed_Process ex_fixed_options fx_clear (ex_frame 1 ts 0) =
     Inr (\<lparr>fx_currentAction = None, lastGesture = setLastGesture ex_mute (Seconds ts)\<rparr>,
          \<lparr>out_messages = Some [\<lparr>topic = ''handCommander/tv/ir_command'', payload = ''KEY_MUTE''\<rparr>],
           out_flag = True\<rparr>)"
  by (simp add: fixed_defs ex_defs fp_eval double_sub_def)

lemma mute_rearm:
  "double_sub (Seconds ts) t0 < 1 \<Longrightarrow>
   fixed_Process ex_fixed_options
     \<lparr>fx_currentAction = None, lastGesture = setLastGesture ex_mute t0\<rparr> (ex_frame 1 ts 0) =
     Inr (\<lparr>fx_currentAction = Some ex_mute, lastGesture = setLastGesture ex_mute t0\<rparr>,
          \<lparr>out_messages = None, out_flag = False\<rparr>)"
  by (simp add: fixed_defs ex_defs fp_eval double_sub_def)

lemma mute_repeat:
  "1 \<le> double_sub (Seconds ts) t0 \<Longrightarrow>
   fixed_Process ex_fixed_options
     \<lparr>fx_currentAction = Some ex_mute, lastGesture = setLastGesture ex_mute t0\<rparr> (ex_frame 1 ts 0) =
     Inr (\<lparr>fx_currentAction = None, lastGesture = setLastGesture ex_mute (Seconds ts)\<rparr>,
          \<lparr>out_messages = Some [\<lparr>topic = ''handCommander/tv/ir_command'', payload = ''KEY_MUTE''\<rparr>],
           out_flag = True\<rparr>)"
  by (simp add: fixed_defs ex_defs fp_eval double_sub_def)

lemma held_three_seconds:
  "fixed_run ex_fixed_options fx_clear
     (map (\<lambda>ts. ex_frame 1 ts 0) [0, 500000, 1000000, 1500000, 2000000, 2500000]) =
   Inr (\<lparr>fx_currentAction = Some ex_mute, lastGesture = setLastGesture ex_mute 2\<rparr>,
     [\<lparr>out_messages = Some [\<lparr>topic = ''handCommander/tv/ir_command'', payload = ''KEY_MUTE''\<rparr>], out_flag = True\<rparr>,
      \<lparr>out_messages = None, out_flag = False\<rparr>,
      \<lparr>out_messages = Some [\<lparr>topic = ''handCommander/tv/ir_command'', payload = ''KEY_MUTE''\<rparr>], out_flag = True\<rparr>,
      \<lparr>out_messages = None, out_flag = False\<rparr>,
      \<lparr>out_messages = Some [\<lparr>topic = ''handCommander/tv/ir_command'', payload = ''KEY_MUTE''\<rparr>], out_flag = True\<rparr>,
      \<lparr>out_messages = None, out_flag = False\<rparr>])"
  by (simp add: mute_first mute_rearm mute_repeat fp_eval double_sub_def)

theorem fixed_no_window_match_counterexample:
  "fixed_Process ex_fixed_options
     \<lparr>fx_currentAction = Some ex_windows, lastGesture = setLastGesture ex_windows 0\<rparr>
     (ex_frame 3 1250000 2) =
     Inr (\<lparr>fx_currentAction = None, lastGesture = setLastGesture ex_windows 0\<rparr>,
          \<lparr>out_messages = None, out_flag = True\<rparr>)"
  by (simp add: fixed_defs ex_defs fp_eval double_sub_def)

lemma select_command_no_window:
  assumes "fx_landmark_id a = Some lm"
    and "getAngle (case fx_angle_number a of None \<Rightarrow> 0 | Some n \<Rightarrow> n) lm angles = Inr ang"
    and "\<forall>w \<in> set (fx_angle_limits a). \<not> in_window ang w"
  shows "select_command a angles = Inr \<lparr>topic = ''empty'', payload = ''''\<rparr>"
  using assms by (simp add: select_command_def window_loop_no_match)

text \<open>
  C3, as the code has it. When the firing routine runs for an action with an angle
  precondition (on the first execution, or when auto-repeat is enabled and the time since
  the last firing, a difference of doubles, has reached the interval) and no window holds
  the selected angle, no command is sent and the
  last-gesture record does not advance: it is left as it was, or emptied by the time-out
  of the same frame. The stored action, however, is cleared, and the unarmed flag is sent
  on that frame.
\<close>

theorem fixed_no_window_match:
  assumes "in_detections f = Some l" and "in_landmarks f = Some lms"
    and "in_angles f = Some angles"
    and "fixed_arm opts s l = Inr s1"
    and "fx_currentAction s1 = Some a"
    and "fx_landmark_id a = Some lm"
    and "getAngle (case fx_angle_number a of None \<Rightarrow> 0 | Some n \<Rightarrow> n) lm angles = Inr ang"
    and "\<not> lg_notEmpty (lastGesture s1)
         \<or> (fx_auto_repeat a
             \<and> double_sub (in_seconds f) (lg_time (lastGesture s1)) \<ge> fx_time_between_actions a)"
    and "\<forall>w \<in> set (fx_angle_limits a).
           \<not> (angle_limit_neg w \<le> ang \<and> ang \<le> angle_limit_pos w)"
  shows "\<exists>s'. fixed_Process opts s f = Inr (s', \<lparr>out_messages = None, out_flag = True\<rparr>)
           \<and> fx_currentAction s' = None
           \<and> (lastGesture s' = lastGesture s1 \<or> lastGesture s' = LastGesture_zero)"
proof -
  have "\<forall>w \<in> set (fx_angle_limits a). \<not> in_window ang w"
    using assms(9) by (auto simp: in_window_def)
  then have sel: "select_command a angles = Inr \<lparr>topic = ''empty'', payload = ''''\<rparr>"
    using assms(6,7) by (rule select_command_no_window [rotated 2])
  then have exec: "executeAction a (lastGesture s1) (in_seconds f) angles =
       Inr (\<lparr>fx_currentAction = None, lastGesture = lastGesture s1\<rparr>, None)"
    by (simp add: executeAction_def)
  have fire: "fixed_fire opts s1 (in_seconds f) angles =
       Inr (fixed_timeout opts (in_seconds f)
              \<lparr>fx_currentAction = None, lastGesture = lastGesture s1\<rparr>, None)"
    using assms(5,8) exec by (simp add: fixed_fire_def fires_def)
  show ?thesis
    using assms(1-4) fire
    by (auto simp: fixed_Process_def fixed_timeout_def fx_clear_def)
qed

theorem fixed_no_window_match_witness:
  "\<exists>s'. fixed_Process ex_fixed_options fx_clear (ex_frame 3 0 2) =
           Inr (s', \<lparr>out_messages = None, out_flag = True\<rparr>)
         \<and> fx_currentAction s' = None
         \<and> lastGesture s' = LastGesture_zero"
proof -
  have arm: "fixed_arm ex_fixed_options fx_clear 3 =
       Inr \<lparr>fx_currentAction = Some ex_windows, lastGesture = LastGesture_zero\<rparr>"
    by (simp add: fixed_defs ex_defs fp_eval double_sub_def)
  have nomatch: "\<forall>w \<in> set (fx_angle_limits ex_windows).
           \<not> (angle_limit_neg w \<le> 2 \<and> 2 \<le> angle_limit_pos w)"
    by (simp add: ex_windows_def fp_eval)
  show ?thesis
    using fixed_no_window_match [of "ex_frame 3 0 2" 3 _ "[\<lparr>angle1 = 2, angle2 = 0\<rparr>]"
        ex_fixed_options fx_clear _ ex_windows 0 2, OF _ _ _ arm _ _ _ _ nomatch]
    by (simp add: ex_frame_def ex_windows_def getAngle_def LastGesture_zero_def fp_eval)
qed

lemma fixed_arm_lastGesture:
  "fixed_arm opts s l = Inr s1 \<Longrightarrow> lg_notEmpty (lastGesture s) \<Longrightarrow>
   lg_start_action (lastGesture s) = l \<Longrightarrow> fx_currentAction s1 \<noteq> None \<Longrightarrow>
   lastGesture s1 = lastGesture s"
  by (auto simp: fixed_arm_def fixed_abort_def fx_clear_def split: option.splits sum.splits)

lemma windows_first_up:
  "fixed_Process ex_fixed_options fx_clear (ex_frame 3 0 (1 / 2)) =
     Inr (\<lparr>fx_currentAction = None, lastGesture = setLastGesture ex_windows 0\<rparr>,
          \<lparr>out_messages = Some [\<lparr>topic = ''handCommander/tv/ir_command'', payload = ''UP''\<rparr>],
           out_flag = True\<rparr>)"
  by (simp add: fixed_defs ex_defs fp_eval double_sub_def)

lemma windows_repeat_outside:
  "fixed_Process ex_fixed_options
     \<lparr>fx_currentAction = None, lastGesture = setLastGesture ex_windows 0\<rparr>
     (ex_frame 3 1250000 2) =
     Inr (\<lparr>fx_currentAction = None, lastGesture = setLastGesture ex_windows 0\<rparr>,
          \<lparr>out_messages = None, out_flag = True\<rparr>)"
  by (simp add: fixed_defs ex_defs fp_eval double_sub_def)

lemma mute_repeat_rounded:
  "fixed_Process ex_fixed_options
     \<lparr>fx_currentAction = Some ex_mute, lastGesture = setLastGesture ex_mute (Seconds 150000)\<rparr>
     (ex_frame 1 1150000 0) =
     Inr (\<lparr>fx_currentAction = Some ex_mute, lastGesture = setLastGesture ex_mute (Seconds 150000)\<rparr>,
          \<lparr>out_messages = None, out_flag = False\<rparr>)"
  by (simp add: fixed_defs ex_defs fp_eval double_sub_def)

theorem fixed_repeat_counterexample:
  "fixed_run ex_fixed_options fx_clear [ex_frame 3 0 (1 / 2), ex_frame 3 1250000 2] =
     Inr (\<lparr>fx_currentAction = None, lastGesture = setLastGesture ex_windows 0\<rparr>,
          [\<lparr>out_messages = Some [\<lparr>topic = ''handCommander/tv/ir_command'', payload = ''UP''\<rparr>],
            out_flag = True\<rparr>,
           \<lparr>out_messages = None, out_flag = True\<rparr>])
   \<and> fx_auto_repeat ex_windows
   \<and> double_sub (Seconds 1250000) (lg_time (setLastGesture ex_windows 0))
       \<ge> fx_time_between_actions ex_windows
   \<and> fixed_Process ex_fixed_options
       \<lparr>fx_currentAction = Some ex_mute, lastGesture = setLastGesture ex_mute (Seconds 150000)\<rparr>
       (ex_frame 1 1150000 0) =
     Inr (\<lparr>fx_currentAction = Some ex_mute, lastGesture = setLastGesture ex_mute (Seconds 150000)\<rparr>,
          \<lparr>out_messages = None, out_flag = False\<rparr>)
   \<and> fx_auto_repeat ex_mute
   \<and> (1150000 - 150000) / 1000000 \<ge> fx_time_between_actions ex_mute"
  by (simp add: windows_first_up windows_repeat_outside mute_repeat_rounded)
    (simp add: ex_windows_def ex_mute_def setLastGesture_def fp_eval double_sub_def)

text \<open>
  C8, as the code has it. On a frame of an arming that has already fired (the
  last-gesture record is set and its start id is the label), a command is sent if and only
  if auto-repeat is enabled, the time since the last firing as the code computes it (the
  difference of the two \<open>Seconds()\<close> values, rounded to a double) is at least the
  configured interval, and the firing routine selects a command (for an action without
  angle precondition this is its first message; topic \<open>empty\<close> is the sentinel for none).
  The command sent is the selected one. With auto-repeat and an interval of one second, a
  gesture held over frames at 0, 0.5, 1, 1.5, 2 and 2.5 seconds sends three commands, at
  0, 1 and 2 seconds.
\<close>

theorem fixed_repeat_rule:
  assumes "in_detections f = Some l" and "in_landmarks f = Some lms"
    and "in_angles f = Some angles"
    and "lg_notEmpty (lastGesture s)" and "lg_start_action (lastGesture s) = l"
    and "fixed_arm opts s l = Inr s1"
    and "fx_currentAction s1 = Some a"
    and "select_command a angles = Inr c"
  shows "(\<exists>s' out. fixed_Process opts s f = Inr (s', out) \<and>
            out_messages out =
              (if fx_auto_repeat a
                  \<and> double_sub (in_seconds f) (lg_time (lastGesture s))
                      \<ge> fx_time_between_actions a
                  \<and> topic c \<noteq> ''empty''
               then Some [c] else None))
         \<and> (fx_landmark_id a = None \<longrightarrow> [c] = take 1 (fx_mqtt_message a))
         \<and> map out_messages
              (case fixed_run ex_fixed_options fx_clear
                      (map (\<lambda>ts. ex_frame 1 ts 0)
                         [0, 500000, 1000000, 1500000, 2000000, 2500000]) of
                 Inl e \<Rightarrow> [] | Inr (s', outs) \<Rightarrow> outs) =
            [Some [\<lparr>topic = ''handCommander/tv/ir_command'', payload = ''KEY_MUTE''\<rparr>], None,
             Some [\<lparr>topic = ''handCommander/tv/ir_command'', payload = ''KEY_MUTE''\<rparr>], None,
             Some [\<lparr>topic = ''handCommander/tv/ir_command'', payload = ''KEY_MUTE''\<rparr>], None]"
proof -
  have lg: "lastGesture s1 = lastGesture s"
    using assms(4-7) by (auto dest: fixed_arm_lastGesture)
  let ?R = "fx_auto_repeat a
             \<and> double_sub (in_seconds f) (lg_time (lastGesture s)) \<ge> fx_time_between_actions a"
  have fires: "fires a (lastGesture s1) (in_seconds f) \<longleftrightarrow> ?R"
    using assms(4) lg by (simp add: fires_def)
  have exec: "executeAction a (lastGesture s1) (in_seconds f) angles =
      (if topic c \<noteq> ''empty''
       then Inr (\<lparr>fx_currentAction = None, lastGesture = setLastGesture a (in_seconds f)\<rparr>,
                 Some [c])
       else Inr (\<lparr>fx_currentAction = None, lastGesture = lastGesture s1\<rparr>, None))"
    using assms(8) by (simp add: executeAction_def)
  have fire: "\<exists>s'. fixed_fire opts s1 (in_seconds f) angles =
      Inr (s', if ?R \<and> topic c \<noteq> ''empty'' then Some [c] else None)"
    by (simp add: fixed_fire_def assms(7) fires exec)
  then obtain s' where
    "fixed_fire opts s1 (in_seconds f) angles =
      Inr (s', if ?R \<and> topic c \<noteq> ''empty'' then Some [c] else None)" ..
  then have main: "\<exists>s' out. fixed_Process opts s f = Inr (s', out) \<and>
            out_messages out =
              (if fx_auto_repeat a
                  \<and> double_sub (in_seconds f) (lg_time (lastGesture s))
                      \<ge> fx_time_between_actions a
                  \<and> topic c \<noteq> ''empty''
               then Some [c] else None)"
    by (simp add: fixed_Process_def assms(1,2,3,6))
  have first: "fx_landmark_id a = None \<longrightarrow> [c] = take 1 (fx_mqtt_message a)"
    using assms(8) by (auto simp: select_command_def split: list.splits option.splits)
  have held: "map out_messages
              (case fixed_run ex_fixed_options fx_clear
                      (map (\<lambda>ts. ex_frame 1 ts 0)
                         [0, 500000, 1000000, 1500000, 2000000, 2500000]) of
                 Inl e \<Rightarrow> [] | Inr (s', outs) \<Rightarrow> outs) =
            [Some [\<lparr>topic = ''handCommander/tv/ir_command'', payload = ''KEY_MUTE''\<rparr>], None,
             Some [\<lparr>topic = ''handCommander/tv/ir_command'', payload = ''KEY_MUTE''\<rparr>], None,
             Some [\<lparr>topic = ''handCommander/tv/ir_command'', payload = ''KEY_MUTE''\<rparr>], None]"
    unfolding held_three_seconds by simp
  from main first held show ?thesis by (rule conjI [OF _ conjI])
qed

theorem fixed_repeat_rule_witness:
  "(\<exists>s' out. fixed_Process ex_fixed_options
       \<lparr>fx_currentAction = None, lastGesture = setLastGesture ex_mute 0\<rparr> (ex_frame 1 1000000 0) =
         Inr (s', out)
      \<and> out_messages out = Some [\<lparr>topic = ''handCommander/tv/ir_command'', payload = ''KEY_MUTE''\<rparr>])
   \<and> (\<exists>s' out. fixed_Process ex_fixed_options
       \<lparr>fx_currentAction = None, lastGesture = setLastGesture ex_mute 0\<rparr> (ex_frame 1 500000 0) =
         Inr (s', out)
      \<and> out_messages out = None)"
proof -
  have arm: "fixed_arm ex_fixed_options
       \<lparr>fx_currentAction = None, lastGesture = setLastGesture ex_mute 0\<rparr> 1 =
       Inr \<lparr>fx_currentAction = Some ex_mute, lastGesture = setLastGesture ex_mute 0\<rparr>"
    by (simp add: fixed_defs ex_defs fp_eval)
  have sel: "select_command ex_mute [\<lparr>angle1 = 0, angle2 = 0\<rparr>] =
       Inr \<lparr>topic = ''handCommander/tv/ir_command'', payload = ''KEY_MUTE''\<rparr>"
    by (simp add: select_command_def ex_mute_def)
  show ?thesis
    using fixed_repeat_rule [where f = "ex_frame 1 1000000 0" and l = 1
              and angles = "[\<lparr>angle1 = 0, angle2 = 0\<rparr>]" and opts = ex_fixed_options
              and a = ex_mute, OF _ _ _ _ _ arm _ sel, THEN conjunct1]
          fixed_repeat_rule [where f = "ex_frame 1 500000 0" and l = 1
              and angles = "[\<lparr>angle1 = 0, angle2 = 0\<rparr>]" and opts = ex_fixed_options
              and a = ex_mute, OF _ _ _ _ _ arm _ sel, THEN conjunct1]
    by (simp add: ex_frame_def setLastGesture_def ex_mute_def in_seconds_def fp_eval double_sub_def)
qed

lemma fixed_scan_bad_entry:
  "act \<in> set acts \<Longrightarrow> fx_start_action act = l \<Longrightarrow> fx_landmark_id act \<noteq> None \<Longrightarrow>
   length (fx_angle_limits act) \<noteq> length (fx_mqtt_message act) \<Longrightarrow>
   fixed_scan l acts cur = Inl AngleNumberMissing \<or> fixed_scan l acts cur = Inl WindowCountMismatch"
  by (induction acts arbitrary: cur) auto

theorem fixed_window_count_counterexample:
  "fixed_Open ex_bad_options = Inr fx_clear
   \<and> fixed_Process ex_bad_options fx_clear (ex_frame 1 0 0) =
     Inr (\<lparr>fx_currentAction = None, lastGesture = setLastGesture ex_mute 0\<rparr>,
          \<lparr>out_messages = Some [\<lparr>topic = ''handCommander/tv/ir_command'', payload = ''KEY_MUTE''\<rparr>],
           out_flag = True\<rparr>)
   \<and> ex_bad \<in> set (fixed_actions_map ex_bad_options)
   \<and> fx_landmark_id ex_bad = Some 0
   \<and> length (fx_angle_limits ex_bad) = 2 \<and> length (fx_mqtt_message ex_bad) = 1"
  by (simp add: fixed_defs ex_defs fixed_Open_def fp_eval)

text \<open>
  C6, as the code has it. \<open>Open\<close> succeeds whatever the configuration holds. An action
  with an angle selector whose number of windows differs from its number of messages
  makes \<open>Process\<close> fail, with no output, on every frame that scans the configuration
  (nothing stored after the abort check) with that action's start id as the label.
\<close>

theorem fixed_window_count_checked_when_arming:
  assumes "act \<in> set (fixed_actions_map opts)"
    and "fx_landmark_id act \<noteq> None"
    and "length (fx_angle_limits act) \<noteq> length (fx_mqtt_message act)"
    and "in_detections f = Some (fx_start_action act)"
    and "in_landmarks f = Some lms" and "in_angles f = Some angles"
    and "fx_currentAction (fixed_abort s (fx_start_action act)) = None"
  shows "fixed_Open opts = Inr fx_clear
         \<and> (fixed_Process opts s f = Inl AngleNumberMissing
            \<or> fixed_Process opts s f = Inl WindowCountMismatch)"
proof -
  have "fixed_scan (fx_start_action act) (fixed_actions_map opts) None = Inl AngleNumberMissing
        \<or> fixed_scan (fx_start_action act) (fixed_actions_map opts) None = Inl WindowCountMismatch"
    using assms(1-3) by (intro fixed_scan_bad_entry) auto
  then have "fixed_arm opts s (fx_start_action act) = Inl AngleNumberMissing
        \<or> fixed_arm opts s (fx_start_action act) = Inl WindowCountMismatch"
    using assms(7) by (auto simp: fixed_arm_def)
  then show ?thesis
    using assms(4-6) by (auto simp: fixed_Process_def fixed_Open_def)
qed

theorem fixed_window_count_checked_when_arming_witness:
  "fixed_Open ex_bad_options = Inr fx_clear
   \<and> fixed_Process ex_bad_options fx_clear (ex_frame 3 0 0) = Inl WindowCountMismatch"
  using fixed_window_count_checked_when_arming
    [of ex_bad ex_bad_options "ex_frame 3 0 0" _ _ fx_clear]
  by (simp add: fixed_defs ex_defs fp_eval double_sub_def)

section \<open>The moving engine: evaluation and the check at the top\<close>

lemmas moving_defs =
  moving_Process_def moving_step_def moving_abort_def moving_timeout_def moving_execute_def
  numActions_of_def movementDiff_def clamp_numActions_def c_div_def float_to_int_def
  moving_messages_def setStartingGesture_def landmark_at_def getAngle_def mv_clear_def
  StartingGesture_zero_def in_seconds_def double_sub_def float_sub_def float_div_def

lemmas ex_moving_defs =
  ex_rotation_def ex_translation_def ex_moving_options_def ex_moving_armed_def ex_frame_def
  ex_dial_def ex_dial_options_def

text \<open>
  The check at the top of the moving \<open>Process\<close> leaves every state alone in which the
  baseline carries the start id of the stored action, and every state that \<open>Process\<close>
  returns is of this kind: after the first frame the check never clears anything,
  whatever the label.
\<close>

lemma moving_abort_consistent: "moving_consistent s \<Longrightarrow> moving_abort s = s"
  by (simp add: moving_abort_def moving_consistent_def)

lemma moving_consistent_abort: "moving_consistent (moving_abort s)"
  by (simp add: moving_abort_def moving_consistent_def mv_clear_def StartingGesture_zero_def)

lemma moving_consistent_clear: "moving_consistent mv_clear"
  by (simp add: moving_consistent_def mv_clear_def StartingGesture_zero_def)

lemma moving_scan_consistent:
  "moving_scan l t lms angs acts s = Inr s' \<Longrightarrow> moving_consistent s \<Longrightarrow> moving_consistent s'"
proof (induction acts arbitrary: s)
  case Nil
  then show ?case by simp
next
  case (Cons act acts)
  show ?case
  proof (cases "mv_start_action act = l")
    case False
    with Cons show ?thesis by simp
  next
    case True
    with Cons.prems obtain sg where
      sg: "setStartingGesture act t lms angs = Inr sg"
      and rest: "moving_scan l t lms angs acts
                   \<lparr>mv_currentAction = Some act, startingGesture = sg\<rparr> = Inr s'"
      by (auto split: sum.splits)
    from sg have "moving_consistent \<lparr>mv_currentAction = Some act, startingGesture = sg\<rparr>"
      by (auto simp: setStartingGesture_def moving_consistent_def split: sum.splits)
    with rest show ?thesis by (rule Cons.IH)
  qed
qed

lemma moving_execute_consistent:
  "moving_execute a s t lms angs = Inr (s', pkt) \<Longrightarrow> moving_consistent s \<Longrightarrow>
   moving_consistent s'"
  by (auto simp: moving_execute_def Let_def moving_consistent_def mv_clear_def
      StartingGesture_zero_def split: sum.splits if_splits)

lemma moving_step_consistent:
  assumes "moving_step opts s l t lms angs = Inr (s', pkt)" and "moving_consistent s"
  shows "moving_consistent s'"
proof (cases "mv_currentAction s")
  case None
  with assms show ?thesis
    by (auto simp: moving_step_def moving_consistent_clear split: sum.splits if_splits
        dest: moving_scan_consistent)
next
  case (Some a0)
  have t: "moving_consistent (moving_timeout opts t s)"
    using assms(2) by (simp add: moving_timeout_def moving_consistent_clear)
  with Some assms(1) show ?thesis
    by (auto simp: moving_step_def Let_def split: option.splits if_splits
        dest: moving_execute_consistent)
qed

lemma moving_Process_consistent:
  "moving_Process opts s f = Inr (s', out) \<Longrightarrow> moving_consistent s'"
  by (auto simp: moving_Process_def split: option.splits sum.splits
      dest: moving_step_consistent [OF _ moving_consistent_abort])

text \<open>
  C2. A frame whose label differs from the start id of the armed moving action should
  clear the engine at the top of \<open>Process\<close>, as it does in the fixed engine. The moving
  engine does not do this: armed on the rotation (start id 6) at time 0, it is handed
  label 4 at 0.1 s and stays armed on the rotation, with its baseline, and sends no
  unarmed flag.
\<close>

theorem moving_label_change_keeps_arming:
  "moving_Process ex_moving_options mv_clear (ex_frame 6 0 0) =
     Inr (ex_moving_armed ex_rotation 0 (1 / 2), \<lparr>out_messages = None, out_flag = False\<rparr>)
   \<and> moving_Process ex_moving_options (ex_moving_armed ex_rotation 0 (1 / 2))
       (ex_frame 4 100000 0) =
     Inr (ex_moving_armed ex_rotation 0 (1 / 2), \<lparr>out_messages = None, out_flag = False\<rparr>)"
  by (simp add: moving_defs ex_moving_defs fp_eval)











section \<open>The transition engine while armed\<close>

lemmas transition_defs =
  transition_Process_def transition_step_def transition_timeout_def tr_clear_def
  actions_zero_def loadAct_def in_seconds_def

lemmas ex_transition_defs =
  ex_frame_def ex_transition_armed_def ex_transition_armed_at_def ex_transition_open_def
  ex_transition_options_def ex_power_on_def ex_power_off_def

text \<open>
  The pairs \<open>Open\<close> stores are all marked as not empty, and \<open>Process\<close> never changes
  the stored pairs.
\<close>

lemma transition_Open_notEmpty:
  "transition_Open opts = Inr s \<Longrightarrow> \<forall>a \<in> set (actionsMap s). notEmpty a"
  by (auto simp: transition_Open_def loadAct_def)

lemma transition_scan_actionsMap: "actionsMap (transition_scan l t acts s) = actionsMap s"
  by (induction acts arbitrary: s) auto

lemma transition_Process_actionsMap:
  "actionsMap (fst (transition_Process opts s f)) = actionsMap s"
  by (simp add: transition_Process_def transition_step_def transition_timeout_def tr_clear_def
      transition_scan_actionsMap Let_def split: option.splits prod.splits)

text \<open>
  Three frames of the engine armed on the pair (0, 2) with a time-out of 1.5 s. Armed at
  0.55 s and shown the end id at 2.05 s, 1.5 s later by the timestamps, it sends the
  command: the difference of the two doubles is below 1.5. Armed at 1 microsecond and
  shown the end id at 1.500001 s, it is cleared and sends nothing, although the exact
  difference of the two doubles is below 1.5: the subtraction rounds it up to 1.5. Armed
  at 0 and handed a frame without detection at 3 s, it does nothing at all and stays
  armed.
\<close>

theorem transition_armed_frame_counterexample:
  "transition_Process ex_transition_options (ex_transition_armed_at (Seconds 550000))
       (ex_frame 2 2050000 0) =
     (ex_transition_open,
      \<lparr>out_messages = Some [\<lparr>topic = ''handCommander/tv/ir_command'', payload = ''KEY_POWER''\<rparr>],
       out_flag = True\<rparr>)
   \<and> real_of_int (2050000 - 550000) / 1000000 \<ge> time_out_s ex_transition_options
   \<and> transition_Process ex_transition_options (ex_transition_armed_at (Seconds 1))
       (ex_frame 2 1500001 0) =
     (ex_transition_open, \<lparr>out_messages = None, out_flag = True\<rparr>)
   \<and> Seconds 1500001 - Seconds 1 < time_out_s ex_transition_options
   \<and> transition_Process ex_transition_options ex_transition_armed
       ((ex_frame 2 3000000 0)\<lparr>in_detections := None\<rparr>) =
     (ex_transition_armed, \<lparr>out_messages = None, out_flag = False\<rparr>)
   \<and> notEmpty (tr_currentAction ex_transition_armed)
   \<and> double_sub (in_seconds ((ex_frame 2 3000000 0)\<lparr>in_detections := None\<rparr>))
         (startingGestureTime ex_transition_armed) \<ge> time_out_s ex_transition_options"
  by (simp add: transition_defs ex_transition_defs double_sub_def fp_eval)

text \<open>
  C5, as the code has it. On a frame of the armed transition engine, armed since
  \<open>startingGestureTime\<close>: a frame without detection changes nothing and sends nothing,
  whatever its time. On a frame with a detection the time since arming is the difference
  of the two \<open>Seconds()\<close> values, rounded to a double; when it has reached the
  time-out, the engine is cleared and nothing is sent, even if the label is the end id;
  otherwise, when the label is the end id of the armed pair, exactly one command with the
  topic and payload of that pair is sent and the engine is cleared; any other label leaves
  the state as it is.
\<close>

theorem transition_armed_frame:
  assumes "notEmpty (tr_currentAction s)"
  shows "transition_Process opts s f =
           (case in_detections f of
              None \<Rightarrow> (s, \<lparr>out_messages = None, out_flag = False\<rparr>)
            | Some l \<Rightarrow>
                if double_sub (in_seconds f) (startingGestureTime s) \<ge> time_out_s opts
                then (tr_clear s, \<lparr>out_messages = None, out_flag = True\<rparr>)
                else if l = endAction (tr_currentAction s)
                then (tr_clear s,
                      \<lparr>out_messages =
                         Some [\<lparr>topic = mq_topic (mqtt (tr_currentAction s)),
                                payload = mq_payload (mqtt (tr_currentAction s))\<rparr>],
                       out_flag = True\<rparr>)
                else (s, \<lparr>out_messages = None, out_flag = False\<rparr>))
         \<and> \<not> notEmpty (tr_currentAction (tr_clear s))"
  using assms
  by (simp add: transition_Process_def transition_step_def transition_timeout_def tr_clear_def
      actions_zero_def split: option.splits)

theorem transition_armed_frame_witness:
  "transition_Process ex_transition_options ex_transition_armed (ex_frame 2 1600000 0) =
     (ex_transition_open, \<lparr>out_messages = None, out_flag = True\<rparr>)
   \<and> transition_Process ex_transition_options ex_transition_armed (ex_frame 2 1400000 0) =
     (ex_transition_open,
      \<lparr>out_messages = Some [\<lparr>topic = ''handCommander/tv/ir_command'', payload = ''KEY_POWER''\<rparr>],
       out_flag = True\<rparr>)
   \<and> transition_Process ex_transition_options ex_transition_armed (ex_frame 1 1400000 0) =
     (ex_transition_armed, \<lparr>out_messages = None, out_flag = False\<rparr>)
   \<and> transition_Process ex_transition_options ex_transition_armed
       ((ex_frame 2 1400000 0)\<lparr>in_detections := None\<rparr>) =
     (ex_transition_armed, \<lparr>out_messages = None, out_flag = False\<rparr>)"
  using transition_armed_frame [where f = "ex_frame 2 1600000 0" and s = ex_transition_armed
      and opts = ex_transition_options]
    transition_armed_frame [where f = "ex_frame 2 1400000 0" and s = ex_transition_armed
      and opts = ex_transition_options]
    transition_armed_frame [where f = "ex_frame 1 1400000 0" and s = ex_transition_armed
      and opts = ex_transition_options]
    transition_armed_frame [where f = "(ex_frame 2 1400000 0)\<lparr>in_detections := None\<rparr>"
      and s = ex_transition_armed and opts = ex_transition_options]
  by (simp add: ex_transition_defs loadAct_def tr_clear_def in_seconds_def double_sub_def
      fp_eval)

section \<open>Arming: which entry an idle engine takes\<close>

lemma transition_idle_frame:
  assumes "in_detections f = Some l" and "\<not> notEmpty (tr_currentAction ts)"
    and "\<forall>a \<in> set (actionsMap ts). notEmpty a"
  shows "transition_Process topts ts f =
           (case find (\<lambda>a. startAction a = l) (rev (actionsMap ts)) of
              None \<Rightarrow> (tr_clear ts, \<lparr>out_messages = None, out_flag = True\<rparr>)
            | Some a \<Rightarrow>
                (ts\<lparr>tr_currentAction := a, startingGestureTime := in_seconds f\<rparr>,
                 \<lparr>out_messages = None, out_flag = False\<rparr>))"
proof (cases "find (\<lambda>a. startAction a = l) (rev (actionsMap ts))")
  case None
  with assms(1,2) show ?thesis
    by (simp add: transition_Process_def transition_step_def transition_scan_last tr_clear_def
        actions_zero_def)
next
  case (Some a)
  then have "a \<in> set (actionsMap ts)"
    by (auto dest: find_Some_mem)
  with assms(3) have "notEmpty a" by blast
  with Some assms(1,2) show ?thesis
    by (simp add: transition_Process_def transition_step_def transition_scan_last)
qed

lemma moving_idle_frame:
  assumes "in_detections f = Some l" and "mv_currentAction ms = None"
    and "moving_Process mopts ms f = Inr (ms', mout)"
  shows "mv_currentAction ms' = find (\<lambda>a. mv_start_action a = l) (rev (moving_actions_map mopts))
         \<and> out_messages mout = None
         \<and> out_flag mout = (find (\<lambda>a. mv_start_action a = l) (rev (moving_actions_map mopts)) = None)"
proof -
  let ?s0 = "moving_abort ms"
  have s0: "mv_currentAction ?s0 = None"
    using assms(2) by (simp add: moving_abort_def mv_clear_def)
  from assms(1,3) obtain lms angs pkt where
    step: "moving_step mopts ?s0 l (in_seconds f) lms angs = Inr (ms', pkt)"
    and out: "mout = \<lparr>out_messages = pkt, out_flag = (mv_currentAction ms' = None)\<rparr>"
    by (auto simp: moving_Process_def split: option.splits sum.splits)
  from step s0 obtain s1 where
    scan: "moving_scan l (in_seconds f) lms angs (moving_actions_map mopts) ?s0 = Inr s1"
    and ms': "ms' = (if mv_currentAction s1 = None then mv_clear else s1)" and pkt: "pkt = None"
    by (auto simp: moving_step_def split: sum.splits)
  from moving_scan_last [OF scan] s0 ms'
  have "mv_currentAction ms' = find (\<lambda>a. mv_start_action a = l) (rev (moving_actions_map mopts))"
    by (auto simp: mv_clear_def split: option.splits)
  with out pkt show ?thesis by simp
qed

lemma fixed_idle_arm:
  assumes "fx_currentAction fs = None" and "fixed_arm fopts fs l = Inr fs'"
  shows "fx_currentAction fs' = find (\<lambda>a. fx_start_action a = l) (rev (fixed_actions_map fopts))"
proof -
  from assms obtain r where
    scan: "fixed_scan l (fixed_actions_map fopts) None = Inr r" and "fx_currentAction fs' = r"
    by (auto simp: fixed_arm_rescans fx_clear_def split: sum.splits option.splits)
  with fixed_scan_last [OF scan] show ?thesis
    by (simp split: option.splits)
qed

text \<open>
  C1, as the code has it. An idle engine that is handed a label arms on the last entry,
  in configuration order, whose start id is the label; when no entry has that start id
  it stays unarmed on that frame. This holds for the transition engine (whose stored pairs
  all come from \<open>Open\<close>), for the moving engine and for the arming half of the fixed
  engine, whenever they do not fail.
\<close>

theorem idle_scan_last_match_wins:
  "(in_detections f = Some l \<and> \<not> notEmpty (tr_currentAction ts)
      \<and> (\<forall>a \<in> set (actionsMap ts). notEmpty a) \<longrightarrow>
      transition_Process topts ts f =
        (case find (\<lambda>a. startAction a = l) (rev (actionsMap ts)) of
           None \<Rightarrow> (tr_clear ts, \<lparr>out_messages = None, out_flag = True\<rparr>)
         | Some a \<Rightarrow>
             (ts\<lparr>tr_currentAction := a, startingGestureTime := in_seconds f\<rparr>,
              \<lparr>out_messages = None, out_flag = False\<rparr>)))
   \<and> (in_detections f = Some l \<and> mv_currentAction ms = None
        \<and> moving_Process mopts ms f = Inr (ms', mout) \<longrightarrow>
        mv_currentAction ms' =
          find (\<lambda>a. mv_start_action a = l) (rev (moving_actions_map mopts))
        \<and> out_messages mout = None
        \<and> out_flag mout =
            (find (\<lambda>a. mv_start_action a = l) (rev (moving_actions_map mopts)) = None))
   \<and> (fx_currentAction fs = None \<and> fixed_arm fopts fs l = Inr fs' \<longrightarrow>
        fx_currentAction fs' =
          find (\<lambda>a. fx_start_action a = l) (rev (fixed_actions_map fopts)))"
  using transition_idle_frame [of f l ts topts] moving_idle_frame [of f l ms mopts ms' mout]
    fixed_idle_arm [of fs fopts l fs']
  by blast

lemmas ex_twice_defs =
  ex_transition_twice_def ex_power_on_def ex_mute_home_def ex_moving_twice_def
  ex_rotation_twice_def ex_rotation_def ex_fixed_twice_def ex_pause_def ex_mute_def ex_frame_def

theorem first_match_counterexample:
  "transition_Process ex_transition_options ex_transition_twice (ex_frame 0 0 0) =
     (ex_transition_twice\<lparr>tr_currentAction := loadAct ex_mute_home\<rparr>,
      \<lparr>out_messages = None, out_flag = False\<rparr>)
   \<and> find (\<lambda>a. startAction a = 0) (actionsMap ex_transition_twice) = Some (loadAct ex_power_on)
   \<and> loadAct ex_power_on \<noteq> loadAct ex_mute_home
   \<and> moving_Process ex_moving_twice mv_clear (ex_frame 6 0 0) =
       Inr (ex_moving_armed ex_rotation_twice 0 (1 / 2), \<lparr>out_messages = None, out_flag = False\<rparr>)
   \<and> find (\<lambda>a. mv_start_action a = 6) (moving_actions_map ex_moving_twice) = Some ex_rotation
   \<and> ex_rotation \<noteq> ex_rotation_twice
   \<and> fixed_arm ex_fixed_twice fx_clear 1 =
       Inr \<lparr>fx_currentAction = Some ex_pause, lastGesture = LastGesture_zero\<rparr>
   \<and> fixed_Process ex_fixed_twice fx_clear (ex_frame 1 0 0) =
       Inr (\<lparr>fx_currentAction = None, lastGesture = setLastGesture ex_pause 0\<rparr>,
            \<lparr>out_messages = Some [\<lparr>topic = ''handCommander/tv/ir_command'', payload = ''KEY_PAUSE''\<rparr>],
             out_flag = True\<rparr>)
   \<and> find (\<lambda>a. fx_start_action a = 1) (fixed_actions_map ex_fixed_twice) = Some ex_mute
   \<and> ex_mute \<noteq> ex_pause"
proof -
  have tr: "transition_Process ex_transition_options ex_transition_twice (ex_frame 0 0 0) =
     (ex_transition_twice\<lparr>tr_currentAction := loadAct ex_mute_home\<rparr>,
      \<lparr>out_messages = None, out_flag = False\<rparr>)"
    by (simp add: transition_defs ex_twice_defs fp_eval)
  have tr1: "find (\<lambda>a. startAction a = 0) (actionsMap ex_transition_twice) = Some (loadAct ex_power_on)"
    "loadAct ex_power_on \<noteq> loadAct ex_mute_home"
    by (simp_all add: transition_defs ex_twice_defs)
  have mv: "moving_Process ex_moving_twice mv_clear (ex_frame 6 0 0) =
       Inr (ex_moving_armed ex_rotation_twice 0 (1 / 2), \<lparr>out_messages = None, out_flag = False\<rparr>)"
    by (simp add: moving_defs ex_twice_defs ex_moving_armed_def fp_eval)
  have mv1: "find (\<lambda>a. mv_start_action a = 6) (moving_actions_map ex_moving_twice) = Some ex_rotation"
    "ex_rotation \<noteq> ex_rotation_twice"
    by (simp_all add: ex_twice_defs)
  have fx: "fixed_arm ex_fixed_twice fx_clear 1 =
       Inr \<lparr>fx_currentAction = Some ex_pause, lastGesture = LastGesture_zero\<rparr>"
    by (simp add: fixed_defs ex_twice_defs fp_eval)
  have fx0: "fixed_Process ex_fixed_twice fx_clear (ex_frame 1 0 0) =
       Inr (\<lparr>fx_currentAction = None, lastGesture = setLastGesture ex_pause 0\<rparr>,
            \<lparr>out_messages = Some [\<lparr>topic = ''handCommander/tv/ir_command'', payload = ''KEY_PAUSE''\<rparr>],
             out_flag = True\<rparr>)"
    by (simp add: fixed_defs ex_twice_defs fp_eval)
  have fx1: "find (\<lambda>a. fx_start_action a = 1) (fixed_actions_map ex_fixed_twice) = Some ex_mute"
    "ex_mute \<noteq> ex_pause"
    by (simp_all add: ex_twice_defs)
  from tr tr1 mv mv1 fx fx0 fx1 show ?thesis by blast
qed

theorem idle_scan_last_match_wins_witness:
  "transition_Process ex_transition_options ex_transition_twice (ex_frame 0 0 0) =
     (ex_transition_twice\<lparr>tr_currentAction := loadAct ex_mute_home\<rparr>,
      \<lparr>out_messages = None, out_flag = False\<rparr>)
   \<and> transition_Process ex_transition_options ex_transition_twice (ex_frame 5 0 0) =
     (ex_transition_twice, \<lparr>out_messages = None, out_flag = True\<rparr>)
   \<and> fx_currentAction \<lparr>fx_currentAction = Some ex_pause, lastGesture = LastGesture_zero\<rparr> =
       find (\<lambda>a. fx_start_action a = 1) (rev (fixed_actions_map ex_fixed_twice))
   \<and> mv_currentAction (ex_moving_armed ex_rotation_twice 0 (1 / 2)) =
       find (\<lambda>a. mv_start_action a = 6) (rev (moving_actions_map ex_moving_twice))"
proof -
  have mv: "moving_Process ex_moving_twice mv_clear (ex_frame 6 0 0) =
       Inr (ex_moving_armed ex_rotation_twice 0 (1 / 2), \<lparr>out_messages = None, out_flag = False\<rparr>)"
    by (simp add: moving_defs ex_twice_defs ex_moving_armed_def fp_eval)
  have fx: "fixed_arm ex_fixed_twice fx_clear 1 =
       Inr \<lparr>fx_currentAction = Some ex_pause, lastGesture = LastGesture_zero\<rparr>"
    by (simp add: fixed_defs ex_twice_defs fp_eval)
  have idle: "\<not> notEmpty (tr_currentAction ex_transition_twice)"
    "\<forall>a \<in> set (actionsMap ex_transition_twice). notEmpty a"
    "mv_currentAction mv_clear = None" "fx_currentAction fx_clear = None"
    by (simp_all add: ex_transition_twice_def actions_zero_def loadAct_def mv_clear_def fx_clear_def)
  have f: "in_detections (ex_frame 0 0 0) = Some 0" "in_detections (ex_frame 5 0 0) = Some 5"
    "in_detections (ex_frame 6 0 0) = Some 6"
    by (simp_all add: ex_frame_def)
  have "transition_Process ex_transition_options ex_transition_twice (ex_frame 0 0 0) =
     (ex_transition_twice\<lparr>tr_currentAction := loadAct ex_mute_home\<rparr>,
      \<lparr>out_messages = None, out_flag = False\<rparr>)"
    using idle_scan_last_match_wins [where f = "ex_frame 0 0 0" and l = 0
        and ts = ex_transition_twice and topts = ex_transition_options, THEN conjunct1] f idle
    by (simp add: ex_twice_defs loadAct_def in_seconds_def fp_eval)
  moreover have "transition_Process ex_transition_options ex_transition_twice (ex_frame 5 0 0) =
     (ex_transition_twice, \<lparr>out_messages = None, out_flag = True\<rparr>)"
    using idle_scan_last_match_wins [where f = "ex_frame 5 0 0" and l = 5
        and ts = ex_transition_twice and topts = ex_transition_options, THEN conjunct1] f idle
    by (simp add: ex_twice_defs loadAct_def tr_clear_def actions_zero_def)
  moreover have "fx_currentAction \<lparr>fx_currentAction = Some ex_pause, lastGesture = LastGesture_zero\<rparr> =
       find (\<lambda>a. fx_start_action a = 1) (rev (fixed_actions_map ex_fixed_twice))"
    using idle_scan_last_match_wins [where fs = fx_clear and fopts = ex_fixed_twice and l = 1,
        THEN conjunct2, THEN conjunct2] idle fx
    by blast
  moreover have "mv_currentAction (ex_moving_armed ex_rotation_twice 0 (1 / 2)) =
       find (\<lambda>a. mv_start_action a = 6) (rev (moving_actions_map ex_moving_twice))"
    using idle_scan_last_match_wins [where f = "ex_frame 6 0 0" and l = 6 and ms = mv_clear
        and mopts = ex_moving_twice, THEN conjunct2, THEN conjunct1] idle mv f
    by blast
  ultimately show ?thesis by blast
qed

section \<open>Routing by the classifier\<close>

lemma str2int_tags:
  "str2int transitionTag = 2478398922" "str2int movingTag = 1389040177"
  "str2int writingTag = 2888443613" "str2int fixedTag = 164143187"
  by (simp_all add: transitionTag_def movingTag_def writingTag_def fixedTag_def
      char_to_unsigned_def)

text \<open>
  What \<open>Process\<close> sends on a frame with a detection, for every table: the text stored
  under the label id (the empty text when the id is not a key) is compared by its 32-bit
  hash with the four names. One boolean per category goes out at the input timestamp,
  true exactly for the category whose name has the hash of the text; when the hash is that
  of no name, as it is for an absent id, all four are false and one release packet goes
  out, stamped for the next allowed timestamp. The four names and the empty text have five
  different hashes, so a text equal to a name is routed to that name and to no other.
\<close>

lemma classifier_routes_by_hash:
  assumes "in_detections f = Some l"
  shows "let outLabel = (case gesture_map l of None \<Rightarrow> '''' | Some t \<Rightarrow> t);
             h = str2int outLabel
         in classifier_Process gesture_map f =
              setLatches (h = str2int transitionTag) (h = str2int movingTag)
                (h = str2int writingTag) (h = str2int fixedTag)
              @ (if h = str2int transitionTag \<or> h = str2int movingTag
                    \<or> h = str2int writingTag \<or> h = str2int fixedTag
                 then []
                 else [\<lparr>pk_tag = TBD, pk_value = True, pk_at = AtNextAllowedInStream\<rparr>])
            \<and> (gesture_map l = None \<longrightarrow>
                 classifier_Process gesture_map f =
                   setLatches False False False False
                   @ [\<lparr>pk_tag = TBD, pk_value = True, pk_at = AtNextAllowedInStream\<rparr>])
            \<and> distinct [str2int transitionTag, str2int movingTag, str2int writingTag,
                         str2int fixedTag, str2int '''']"
  using assms
  by (simp add: classifier_Process_def Let_def str2int_tags)

text \<open>The table read from a file with the four names, and two frames routed by it.\<close>

lemma classifier_routes_by_hash_example:
  "classifier_Open (Some ''transition\<newline>moving\<newline>writing\<newline>fixed\<newline>'') =
     Inr ex_gesture_map
   \<and> classifier_Process ex_gesture_map (ex_frame 1 0 0) = setLatches False True False False
   \<and> classifier_Process ex_gesture_map (ex_frame 7 0 0) =
       setLatches False False False False
       @ [\<lparr>pk_tag = TBD, pk_value = True, pk_at = AtNextAllowedInStream\<rparr>]"
proof -
  have f: "in_detections (ex_frame 1 0 0) = Some 1" "in_detections (ex_frame 7 0 0) = Some 7"
    by (simp_all add: ex_frame_def)
  have "classifier_Open (Some ''transition\<newline>moving\<newline>writing\<newline>fixed\<newline>'') =
     Inr ex_gesture_map"
    by (simp add: classifier_Open_def ex_gesture_map_def upt_rec fun_upd_twist)
  moreover have "classifier_Process ex_gesture_map (ex_frame 1 0 0) =
      setLatches False True False False"
    using classifier_routes_by_hash [OF f(1), where gesture_map = ex_gesture_map]
    by (simp add: ex_gesture_map_def Let_def str2int_tags char_to_unsigned_def)
  moreover have "classifier_Process ex_gesture_map (ex_frame 7 0 0) =
       setLatches False False False False
       @ [\<lparr>pk_tag = TBD, pk_value = True, pk_at = AtNextAllowedInStream\<rparr>]"
    using classifier_routes_by_hash [OF f(2), where gesture_map = ex_gesture_map]
    by (simp add: ex_gesture_map_def Let_def)
  ultimately show ?thesis by blast
qed

text \<open>
  C9. A text that is none of the four names should leave all four booleans false and
  release the flow limiter. The code compares hashes, and the hash is not injective: the
  table whose line 0 reads \<open>Ghxed\<close> comes out of \<open>Open\<close> as it is, the text is none of
  the four names, and yet label 0 raises the latch of the fixed engine, as \<open>fixed\<close>
  would, and no release packet is sent.
\<close>

theorem classifier_colliding_text_routed_as_fixed:
  "classifier_Open (Some ''Ghxed\<newline>'') = Inr [0 \<mapsto> ''Ghxed'']
   \<and> classifier_Process [0 \<mapsto> ''Ghxed''] (ex_frame 0 0 0) = setLatches False False False True
   \<and> str2int ''Ghxed'' = str2int fixedTag
   \<and> ''Ghxed'' \<noteq> transitionTag \<and> ''Ghxed'' \<noteq> movingTag
   \<and> ''Ghxed'' \<noteq> writingTag \<and> ''Ghxed'' \<noteq> fixedTag"
  by (simp add: classifier_Open_def classifier_Process_def ex_frame_def str2int_tags
      char_to_unsigned_def transitionTag_def movingTag_def writingTag_def fixedTag_def)

end
